theory Spec2Isabelle
  imports Main
begin

section \<open>Strings of the script\<close>

text \<open>
  Strings are byte strings. The string operations of the script are given on the ASCII
  range: \<open>toLowerCase\<close> folds \<open>A\<close>..\<open>Z\<close>, \<open>trim\<close> removes the ASCII white space
  (tab, line feed, vertical tab, form feed, carriage return, space). Bytes from \<open>0x80\<close> on
  are carried through unchanged, and lengths and positions count bytes.
\<close>

definition toLowerCase_char :: "char \<Rightarrow> char" where
  "toLowerCase_char c =
     (let n = (of_char c :: nat) in if 65 \<le> n \<and> n \<le> 90 then char_of (n + 32) else c)"

lemma toLowerCase_char_code [code]:
  "toLowerCase_char (Char b0 b1 b2 b3 b4 b5 b6 b7) =
     (if ((b7 \<or> (b6 \<and> (b5 \<or> (b4 \<or> (b3 \<or> (b2 \<or> (b1 \<or> b0))))))) \<and> (\<not> b7 \<and> (\<not> b6 \<or> (\<not> b5 \<and> (\<not> b4 \<or> (\<not> b3 \<or> (\<not> b2 \<and> (\<not> b1 \<or> \<not> b0))))))))
      then Char b0 b1 b2 b3 b4 True b6 b7 else Char b0 b1 b2 b3 b4 b5 b6 b7)"
  by (cases b0; cases b1; cases b2; cases b3; cases b4; cases b5; cases b6; cases b7)
     (simp_all add: toLowerCase_char_def char_of_def bit_Suc_0_iff)

definition toLowerCase :: "string \<Rightarrow> string" where
  "toLowerCase s = map toLowerCase_char s"

definition is_space :: "char \<Rightarrow> bool" where
  "is_space c = (let n = (of_char c :: nat) in (9 \<le> n \<and> n \<le> 13) \<or> n = 32)"

lemma is_space_code [code]:
  "is_space (Char b0 b1 b2 b3 b4 b5 b6 b7) =
     (((b7 \<or> (b6 \<or> (b5 \<or> (b4 \<or> (b3 \<and> (b2 \<or> (b1 \<or> b0))))))) \<and> (\<not> b7 \<and> (\<not> b6 \<and> (\<not> b5 \<and> (\<not> b4 \<and> (\<not> b3 \<or> (\<not> b2 \<or> \<not> b1))))))) \<or>
      ((b7 \<or> (b6 \<or> b5)) \<and> (\<not> b7 \<and> (\<not> b6 \<and> (\<not> b5 \<or> (\<not> b4 \<and> (\<not> b3 \<and> (\<not> b2 \<and> (\<not> b1 \<and> \<not> b0)))))))))"
  by (cases b0; cases b1; cases b2; cases b3; cases b4; cases b5; cases b6; cases b7)
     (simp_all add: is_space_def)

definition trim :: "string \<Rightarrow> string" where
  "trim s = rev (dropWhile is_space (rev (dropWhile is_space s)))"

definition startsWith :: "string \<Rightarrow> string \<Rightarrow> bool" where
  "startsWith s p = (take (length p) s = p)"

definition endsWith :: "string \<Rightarrow> string \<Rightarrow> bool" where
  "endsWith s p = (length p \<le> length s \<and> drop (length s - length p) s = p)"

fun join :: "string \<Rightarrow> string list \<Rightarrow> string" where
  "join sep [] = []"
| "join sep [x] = x"
| "join sep (x # y # ys) = x @ sep @ join sep (y # ys)"

definition is_digit :: "char \<Rightarrow> bool" where
  "is_digit c = (let n = (of_char c :: nat) in 48 \<le> n \<and> n \<le> 57)"

lemma is_digit_code [code]:
  "is_digit (Char b0 b1 b2 b3 b4 b5 b6 b7) =
     ((b7 \<or> (b6 \<or> (b5 \<and> b4))) \<and> (\<not> b7 \<and> (\<not> b6 \<and> (\<not> b5 \<or> (\<not> b4 \<or> (\<not> b3 \<or> (\<not> b2 \<and> \<not> b1)))))))"
  by (cases b0; cases b1; cases b2; cases b3; cases b4; cases b5; cases b6; cases b7)
     (simp_all add: is_digit_def)

definition is_alpha :: "char \<Rightarrow> bool" where
  "is_alpha c = (let n = (of_char c :: nat) in (65 \<le> n \<and> n \<le> 90) \<or> (97 \<le> n \<and> n \<le> 122))"

lemma is_alpha_code [code]:
  "is_alpha (Char b0 b1 b2 b3 b4 b5 b6 b7) =
     (((b7 \<or> (b6 \<and> (b5 \<or> (b4 \<or> (b3 \<or> (b2 \<or> (b1 \<or> b0))))))) \<and> (\<not> b7 \<and> (\<not> b6 \<or> (\<not> b5 \<and> (\<not> b4 \<or> (\<not> b3 \<or> (\<not> b2 \<and> (\<not> b1 \<or> \<not> b0)))))))) \<or>
      ((b7 \<or> (b6 \<and> (b5 \<and> (b4 \<or> (b3 \<or> (b2 \<or> (b1 \<or> b0))))))) \<and> (\<not> b7 \<and> (\<not> b6 \<or> (\<not> b5 \<or> (\<not> b4 \<or> (\<not> b3 \<or> (\<not> b2 \<and> (\<not> b1 \<or> \<not> b0)))))))))"
  by (cases b0; cases b1; cases b2; cases b3; cases b4; cases b5; cases b6; cases b7)
     (simp_all add: is_alpha_def)

definition digit_char :: "nat \<Rightarrow> char" where
  "digit_char d = char_of (48 + d)"

text \<open>Decimal rendering of a natural number, as a template literal prints an index.\<close>

function show_nat :: "nat \<Rightarrow> string" where
  "show_nat n = (if n < 10 then [digit_char n] else show_nat (n div 10) @ [digit_char (n mod 10)])"
  by pat_completeness auto
termination
  by (relation "measure id") auto

declare show_nat.simps [simp del]

definition show_int :: "int \<Rightarrow> string" where
  "show_int i = (if i < 0 then CHR ''-'' # show_nat (nat (- i)) else show_nat (nat i))"

section \<open>Values that arrive in a message\<close>

text \<open>
  A message is a JSON value, or \<open>undefined\<close> where a property is absent. Numbers are the
  integer-valued ones below \<open>1e21\<close> in size; \<open>String\<close> prints them in decimal.
\<close>

datatype jsval =
    JUndefined
  | JNull
  | JBool bool
  | JNum int
  | JStr string
  | JArr "jsval list"
  | JObj "(string \<times> jsval) list"

fun truthy :: "jsval \<Rightarrow> bool" where
  "truthy JUndefined = False"
| "truthy JNull = False"
| "truthy (JBool b) = b"
| "truthy (JNum n) = (n \<noteq> 0)"
| "truthy (JStr s) = (s \<noteq> [])"
| "truthy (JArr xs) = True"
| "truthy (JObj kvs) = True"

text \<open>\<open>String(x)\<close>; inside an array, \<open>null\<close> and \<open>undefined\<close> print as the empty string.\<close>

fun js_String :: "jsval \<Rightarrow> string" where
  "js_String JUndefined = ''undefined''"
| "js_String JNull = ''null''"
| "js_String (JBool b) = (if b then ''true'' else ''false'')"
| "js_String (JNum n) = show_int n"
| "js_String (JStr s) = s"
| "js_String (JArr xs) =
     join '','' (map (\<lambda>x. if x = JUndefined \<or> x = JNull then [] else js_String x) xs)"
| "js_String (JObj kvs) = ''[object Object]''"

text \<open>\<open>m?.k\<close>: the property of an object, \<open>undefined\<close> on everything else.\<close>

fun get_prop :: "jsval \<Rightarrow> string \<Rightarrow> jsval" where
  "get_prop (JObj kvs) k = (case map_of kvs k of Some v \<Rightarrow> v | None \<Rightarrow> JUndefined)"
| "get_prop v k = JUndefined"

text \<open>\<open>x ?? ""\<close>.\<close>

definition nullish_empty :: "jsval \<Rightarrow> jsval" where
  "nullish_empty v = (if v = JNull \<or> v = JUndefined then JStr [] else v)"

datatype js_error = TypeError string | SyntaxError string

text \<open>\<open>String(e.message || e)\<close> of the top-level handler.\<close>

fun error_string :: "js_error \<Rightarrow> string" where
  "error_string (TypeError m) = (if m \<noteq> [] then m else ''TypeError'')"
| "error_string (SyntaxError m) = (if m \<noteq> [] then m else ''SyntaxError'')"

section \<open>The document\<close>

text \<open>
  The document is the list of its elements in document order; an element is addressed by
  its position. \<open>parentElement\<close> holds the position of the parent. \<open>innerText\<close> stands for
  the text the script reads from the element (\<open>innerText\<close> of a label, \<open>text\<close> of an
  option). \<open>elem_value\<close>, \<open>checked\<close> and \<open>selected\<close> are the properties the script reads
  and assigns.
\<close>

record element =
  tagName :: string
  attributes :: "(string \<times> string) list"
  parentElement :: "nat option"
  innerText :: string
  elem_value :: string
  checked :: bool
  selected :: bool

type_synonym document = "element list"

definition getAttribute :: "element \<Rightarrow> string \<Rightarrow> string option" where
  "getAttribute e a = map_of (attributes e) a"

text \<open>\<open>el.getAttribute(a) || ""\<close>.\<close>

definition attr_or_empty :: "element \<Rightarrow> string \<Rightarrow> string" where
  "attr_or_empty e a = (case getAttribute e a of Some v \<Rightarrow> v | None \<Rightarrow> [])"

definition tag_of :: "element \<Rightarrow> string" where
  "tag_of e = toLowerCase (tagName e)"

text \<open>\<open>(el.getAttribute("type") || "").toLowerCase()\<close>.\<close>

definition type_of :: "element \<Rightarrow> string" where
  "type_of e = toLowerCase (attr_or_empty e ''type'')"

text \<open>A parent is an earlier element of the list; any other pointer counts as no parent.\<close>

definition parent_of :: "document \<Rightarrow> nat \<Rightarrow> nat option" where
  "parent_of doc i =
     (if i < length doc then
        (case parentElement (doc ! i) of
           Some p \<Rightarrow> if p < i then Some p else None
         | None \<Rightarrow> None)
      else None)"

definition children_of :: "document \<Rightarrow> nat \<Rightarrow> nat list" where
  "children_of doc p = filter (\<lambda>j. parent_of doc j = Some p) [0..<length doc]"

text \<open>The element and its ancestors, nearest first.\<close>

function inclusive_ancestors :: "document \<Rightarrow> nat \<Rightarrow> nat list" where
  "inclusive_ancestors doc i =
     (case parent_of doc i of
        None \<Rightarrow> [i]
      | Some p \<Rightarrow> i # inclusive_ancestors doc p)"
  by pat_completeness auto
termination
  by (relation "measure snd") (auto simp: parent_of_def split: if_splits option.splits)

declare inclusive_ancestors.simps [simp del]

text \<open>Reflected properties of form controls.\<close>

definition prop_disabled :: "element \<Rightarrow> bool" where
  "prop_disabled e = (getAttribute e ''disabled'' \<noteq> None)"

definition prop_multiple :: "element \<Rightarrow> bool" where
  "prop_multiple e = (getAttribute e ''multiple'' \<noteq> None)"

definition input_types :: "string list" where
  "input_types =
     [''hidden'', ''text'', ''search'', ''tel'', ''url'', ''email'', ''password'', ''date'',
      ''month'', ''week'', ''time'', ''datetime-local'', ''number'', ''range'', ''color'',
      ''checkbox'', ''radio'', ''file'', ''submit'', ''image'', ''reset'', ''button'']"

text \<open>\<open>el.type\<close> of an input, a select or a textarea; the empty string elsewhere.\<close>

definition prop_type :: "element \<Rightarrow> string" where
  "prop_type e =
     (if tag_of e = ''input'' then
        (if type_of e \<in> set input_types then type_of e else ''text'')
      else if tag_of e = ''select'' then
        (if prop_multiple e then ''select-multiple'' else ''select-one'')
      else if tag_of e = ''textarea'' then ''textarea''
      else [])"

definition named_tags :: "string list" where
  "named_tags =
     [''a'', ''button'', ''details'', ''embed'', ''fieldset'', ''form'', ''frame'', ''iframe'',
      ''img'', ''input'', ''map'', ''meta'', ''object'', ''output'', ''param'', ''select'',
      ''slot'', ''textarea'']"

text \<open>\<open>el.name\<close>: the attribute on the elements that reflect it, falsy elsewhere.\<close>

definition prop_name :: "element \<Rightarrow> string" where
  "prop_name e = (if tag_of e \<in> set named_tags then attr_or_empty e ''name'' else [])"

text \<open>\<open>select.options\<close>: the option children, and the option children of optgroup children.\<close>

definition options_of :: "document \<Rightarrow> nat \<Rightarrow> nat list" where
  "options_of doc n =
     filter (\<lambda>j. tag_of (doc ! j) = ''option'' \<and>
               (case parent_of doc j of
                  None \<Rightarrow> False
                | Some p \<Rightarrow> p = n \<or> (tag_of (doc ! p) = ''optgroup'' \<and> parent_of doc p = Some n)))
       [0..<length doc]"

text \<open>\<open>option.value\<close> is the value attribute, or the text without it.\<close>

definition option_value :: "element \<Rightarrow> string" where
  "option_value e = (case getAttribute e ''value'' of Some v \<Rightarrow> v | None \<Rightarrow> innerText e)"

text \<open>\<open>document.body\<close>: the first body or frameset child of the html root.\<close>

definition document_body :: "document \<Rightarrow> nat option" where
  "document_body doc =
     (if doc \<noteq> [] \<and> tag_of (doc ! 0) = ''html'' then
        (case filter (\<lambda>j. tag_of (doc ! j) = ''body'' \<or> tag_of (doc ! j) = ''frameset'')
                (children_of doc 0) of
           [] \<Rightarrow> None
         | b # _ \<Rightarrow> Some b)
      else None)"

section \<open>\<open>CSS.escape\<close>\<close>

definition is_control :: "char \<Rightarrow> bool" where
  "is_control c = (let n = (of_char c :: nat) in (1 \<le> n \<and> n \<le> 31) \<or> n = 127)"

lemma is_control_code [code]:
  "is_control (Char b0 b1 b2 b3 b4 b5 b6 b7) =
     (((b7 \<or> (b6 \<or> (b5 \<or> (b4 \<or> (b3 \<or> (b2 \<or> (b1 \<or> b0))))))) \<and> (\<not> b7 \<and> (\<not> b6 \<and> \<not> b5))) \<or>
      ((b7 \<or> (b6 \<and> (b5 \<and> (b4 \<and> (b3 \<and> (b2 \<and> (b1 \<and> b0))))))) \<and> \<not> b7))"
  by (cases b0; cases b1; cases b2; cases b3; cases b4; cases b5; cases b6; cases b7)
     (simp_all add: is_control_def)

definition is_non_ascii :: "char \<Rightarrow> bool" where
  "is_non_ascii c = (128 \<le> (of_char c :: nat))"

lemma is_non_ascii_code [code]:
  "is_non_ascii (Char b0 b1 b2 b3 b4 b5 b6 b7) =
     b7"
  by (cases b0; cases b1; cases b2; cases b3; cases b4; cases b5; cases b6; cases b7)
     (simp_all add: is_non_ascii_def)

definition hex_char :: "nat \<Rightarrow> char" where
  "hex_char d = (if d < 10 then char_of (48 + d) else char_of (87 + d))"

text \<open>Lower-case hexadecimal of a code unit below 256.\<close>

definition to_hex :: "nat \<Rightarrow> string" where
  "to_hex n = (if n < 16 then [hex_char n] else [hex_char (n div 16), hex_char (n mod 16)])"

definition escape_code_point :: "char \<Rightarrow> string" where
  "escape_code_point c = CHR 0x5C # to_hex (of_char c) @ '' ''"

text \<open>
  One step of the serialisation of an identifier: \<open>i\<close> is the index of \<open>c\<close> in \<open>whole\<close>.
  NUL becomes U+FFFD (three bytes in UTF-8).
\<close>

definition escape_unit :: "nat \<Rightarrow> string \<Rightarrow> char \<Rightarrow> string" where
  "escape_unit i whole c =
     (if c = CHR 0x00 then [CHR 0xEF, CHR 0xBF, CHR 0xBD]
      else if is_control c then escape_code_point c
      else if i = 0 \<and> is_digit c then escape_code_point c
      else if i = 1 \<and> is_digit c \<and> take 1 whole = ''-'' then escape_code_point c
      else if i = 0 \<and> length whole = 1 \<and> c = CHR ''-'' then [CHR 0x5C, c]
      else if is_non_ascii c \<or> c = CHR ''-'' \<or> c = CHR ''_'' \<or> is_digit c \<or> is_alpha c then [c]
      else [CHR 0x5C, c])"

fun escape_from :: "nat \<Rightarrow> string \<Rightarrow> string \<Rightarrow> string" where
  "escape_from i whole [] = []"
| "escape_from i whole (c # cs) = escape_unit i whole c @ escape_from (Suc i) whole cs"

definition CSS_escape :: "string \<Rightarrow> string" where
  "CSS_escape s = escape_from 0 s s"

section \<open>Selectors\<close>

text \<open>
  The selector engine below reads the selectors the script itself writes: compound
  selectors made of a type selector, \<open>#id\<close>, \<open>[attr="value"]\<close> and \<open>:nth-of-type(n)\<close>,
  joined by the descendant and child combinators, in comma-separated lists, with the
  escapes of \<open>CSS.escape\<close> decoded. Any other string is reported as a syntax error.
  Matching is that of an HTML document in no-quirks mode.
\<close>

subsection \<open>Tokens\<close>

definition is_css_ws :: "char \<Rightarrow> bool" where
  "is_css_ws c = (let n = (of_char c :: nat) in n = 9 \<or> n = 10 \<or> n = 12 \<or> n = 13 \<or> n = 32)"

lemma is_css_ws_code [code]:
  "is_css_ws (Char b0 b1 b2 b3 b4 b5 b6 b7) =
     (((b7 \<or> (b6 \<or> (b5 \<or> (b4 \<or> (b3 \<and> (b2 \<or> (b1 \<or> b0))))))) \<and> (\<not> b7 \<and> (\<not> b6 \<and> (\<not> b5 \<and> (\<not> b4 \<and> (\<not> b3 \<or> (\<not> b2 \<and> (\<not> b1 \<or> \<not> b0)))))))) \<or> ((b7 \<or> (b6 \<or> (b5 \<or> (b4 \<or> (b3 \<and> b2))))) \<and> (\<not> b7 \<and> (\<not> b6 \<and> (\<not> b5 \<and> (\<not> b4 \<and> (\<not> b3 \<or> (\<not> b2 \<or> \<not> b1))))))) \<or>
      ((b7 \<or> (b6 \<or> b5)) \<and> (\<not> b7 \<and> (\<not> b6 \<and> (\<not> b5 \<or> (\<not> b4 \<and> (\<not> b3 \<and> (\<not> b2 \<and> (\<not> b1 \<and> \<not> b0)))))))))"
  by (cases b0; cases b1; cases b2; cases b3; cases b4; cases b5; cases b6; cases b7)
     (simp_all add: is_css_ws_def)

definition is_name_start :: "char \<Rightarrow> bool" where
  "is_name_start c = (is_alpha c \<or> c = CHR ''_'' \<or> is_non_ascii c)"

definition is_name_char :: "char \<Rightarrow> bool" where
  "is_name_char c = (is_name_start c \<or> is_digit c \<or> c = CHR ''-'')"

definition hex_digit_value :: "char \<Rightarrow> nat option" where
  "hex_digit_value c =
     (let n = (of_char c :: nat) in
      if 48 \<le> n \<and> n \<le> 57 then Some (n - 48)
      else if 97 \<le> n \<and> n \<le> 102 then Some (n - 87)
      else if 65 \<le> n \<and> n \<le> 70 then Some (n - 55)
      else None)"

definition is_hex :: "char \<Rightarrow> bool" where
  "is_hex c = (hex_digit_value c \<noteq> None)"

definition hex_value :: "string \<Rightarrow> nat" where
  "hex_value hs = foldl (\<lambda>a c. 16 * a + (case hex_digit_value c of Some d \<Rightarrow> d | None \<Rightarrow> 0)) 0 hs"

definition dec_value :: "string \<Rightarrow> nat" where
  "dec_value ds = foldl (\<lambda>a c. 10 * a + ((of_char c :: nat) - 48)) 0 ds"

text \<open>
  The input after a backslash: up to six hexadecimal digits and one white space, or one
  other character. Only escapes of the code points 1 to 127 are read.
\<close>

definition consume_escape :: "string \<Rightarrow> (char \<times> string) option" where
  "consume_escape s =
     (case s of
        [] \<Rightarrow> None
      | c # cs \<Rightarrow>
          if c = CHR 0x0A then None
          else if is_hex c then
            (let hs = takeWhile is_hex (take 6 s);
                 r = drop (length hs) s;
                 r' = (case r of [] \<Rightarrow> [] | w # ws \<Rightarrow> if is_css_ws w then ws else r);
                 v = hex_value hs
             in if 0 < v \<and> v < 128 then Some (char_of v, r') else None)
          else Some (c, cs))"

lemma consume_escape_length:
  "consume_escape s = Some (c, r) \<Longrightarrow> length r < length s"
  by (cases s)
     (auto simp: consume_escape_def Let_def is_hex_def split: if_splits list.splits
           dest!: arg_cong [where f = length])

function parse_name :: "string \<Rightarrow> (string \<times> string) option" where
  "parse_name [] = Some ([], [])"
| "parse_name (c # cs) =
     (if is_name_char c then
        (case parse_name cs of None \<Rightarrow> None | Some (n, r) \<Rightarrow> Some (c # n, r))
      else if c = CHR 0x5C then
        (case consume_escape cs of
           None \<Rightarrow> None
         | Some (d, r) \<Rightarrow>
             (case parse_name r of None \<Rightarrow> None | Some (n, r') \<Rightarrow> Some (d # n, r')))
      else Some ([], c # cs))"
  by pat_completeness auto
termination
  by (relation "measure length") (auto dest: consume_escape_length)

text \<open>The body of a double-quoted string, up to the closing quote.\<close>

function parse_string_body :: "string \<Rightarrow> (string \<times> string) option" where
  "parse_string_body [] = None"
| "parse_string_body (c # cs) =
     (if c = CHR 0x22 then Some ([], cs)
      else if c = CHR 0x5C then
        (case consume_escape cs of
           None \<Rightarrow> None
         | Some (d, r) \<Rightarrow>
             (case parse_string_body r of None \<Rightarrow> None | Some (n, r') \<Rightarrow> Some (d # n, r')))
      else if c = CHR 0x0A then None
      else (case parse_string_body cs of None \<Rightarrow> None | Some (n, r) \<Rightarrow> Some (c # n, r)))"
  by pat_completeness auto
termination
  by (relation "measure length") (auto dest: consume_escape_length)

text \<open>Whether the input starts an identifier.\<close>

definition starts_ident :: "string \<Rightarrow> bool" where
  "starts_ident s =
     (case s of
        [] \<Rightarrow> False
      | c # cs \<Rightarrow>
          if is_name_start c \<or> c = CHR 0x5C then True
          else if c = CHR ''-'' then
            (case cs of [] \<Rightarrow> False | d # _ \<Rightarrow> is_name_start d \<or> d = CHR ''-'' \<or> d = CHR 0x5C)
          else False)"

datatype token =
    TIdent string
  | TFunction string
  | THash string bool
  | TString string
  | TNumber nat
  | TWhitespace
  | TComma
  | TGreater
  | TColon
  | TLBracket
  | TRBracket
  | TEquals
  | TRParen
  | TDelim char

definition delim_token :: "char \<Rightarrow> token" where
  "delim_token c =
     (if c = CHR '','' then TComma
      else if c = CHR ''>'' then TGreater
      else if c = CHR '':'' then TColon
      else if c = CHR ''['' then TLBracket
      else if c = CHR '']'' then TRBracket
      else if c = CHR ''='' then TEquals
      else if c = CHR '')'' then TRParen
      else TDelim c)"

lemma parse_name_length:
  "parse_name s = Some (n, r) \<Longrightarrow> length r \<le> length s"
proof (induction s arbitrary: n r rule: parse_name.induct)
  case 1
  then show ?case by simp
next
  case (2 c cs)
  show ?case
  proof (cases "is_name_char c")
    case True
    with 2 show ?thesis by (auto split: option.splits)
  next
    case False
    with 2 show ?thesis
      by (fastforce split: option.splits if_splits dest: consume_escape_length)
  qed
qed

lemma parse_name_shrinks:
  "parse_name (c # cs) = Some (n, r) \<Longrightarrow> is_name_char c \<or> c = CHR 0x5C \<Longrightarrow>
   length r \<le> length cs"
  by (fastforce split: option.splits if_splits
        dest: consume_escape_length parse_name_length)

lemma parse_string_body_length:
  "parse_string_body s = Some (n, r) \<Longrightarrow> length r < length s"
proof (induction s arbitrary: n r rule: parse_string_body.induct)
  case 1
  then show ?case by simp
next
  case (2 c cs)
  then show ?case
    by (fastforce split: option.splits if_splits dest: consume_escape_length)
qed

lemma starts_ident_head:
  "starts_ident (c # cs) \<Longrightarrow> is_name_char c \<or> c = CHR 0x5C"
  by (auto simp: starts_ident_def is_name_char_def split: if_splits)

function tokenize :: "string \<Rightarrow> token list option" where
  "tokenize [] = Some []"
| "tokenize (c # cs) =
     (if is_css_ws c then
        map_option (Cons TWhitespace) (tokenize (dropWhile is_css_ws cs))
      else if c = CHR 0x22 then
        (case parse_string_body cs of
           None \<Rightarrow> None
         | Some (s, r) \<Rightarrow> map_option (Cons (TString s)) (tokenize r))
      else if c = CHR ''#'' \<and> cs \<noteq> [] \<and> (is_name_char (hd cs) \<or> hd cs = CHR 0x5C) then
        (case parse_name cs of
           None \<Rightarrow> None
         | Some (s, r) \<Rightarrow> map_option (Cons (THash s (starts_ident cs))) (tokenize r))
      else if is_digit c then
        (let r = dropWhile is_digit cs in
         if starts_ident r \<or> take 1 r = ''.'' \<or> take 1 r = ''%'' then None
         else map_option (Cons (TNumber (dec_value (c # takeWhile is_digit cs)))) (tokenize r))
      else if starts_ident (c # cs) then
        (case parse_name (c # cs) of
           None \<Rightarrow> None
         | Some (s, r) \<Rightarrow>
             (case r of
                [] \<Rightarrow> Some [TIdent s]
              | d # r' \<Rightarrow>
                  if d = CHR ''('' then map_option (Cons (TFunction s)) (tokenize r')
                  else map_option (Cons (TIdent s)) (tokenize r)))
      else map_option (Cons (delim_token c)) (tokenize cs))"
  by pat_completeness auto
termination
proof (relation "measure length", goal_cases)
  case 1
  then show ?case by simp
next
  case (2 c cs)
  then show ?case by (simp add: length_dropWhile_le le_imp_less_Suc)
next
  case (3 c cs x2 x y)
  then show ?case by (auto dest: parse_string_body_length)
next
  case (4 c cs x2 x y)
  then show ?case by (auto dest: parse_name_length)
next
  case (5 c cs x)
  then show ?case by (simp add: length_dropWhile_le le_imp_less_Suc)
next
  case prems: (6 c cs x2 x y d r')
  from prems have p: "parse_name (c # cs) = Some (x, d # r')" by simp
  from prems have "starts_ident (c # cs)" by simp
  then have "is_name_char c \<or> c = CHR 0x5C" by (rule starts_ident_head)
  with p have "length (d # r') \<le> length cs" by (rule parse_name_shrinks)
  then show ?case by simp
next
  case prems: (7 c cs x2 x y d r')
  from prems have p: "parse_name (c # cs) = Some (x, y)" by simp
  from prems have "starts_ident (c # cs)" by simp
  then have "is_name_char c \<or> c = CHR 0x5C" by (rule starts_ident_head)
  with p have "length y \<le> length cs" by (rule parse_name_shrinks)
  then show ?case by simp
next
  case (8 c cs)
  then show ?case by simp
qed

declare tokenize.simps [simp del]

subsection \<open>Selectors from tokens\<close>

datatype simple_selector =
    TypeSel string
  | IdSel string
  | AttrEq string string
  | NthOfType nat

datatype combinator = Descendant | Child

type_synonym compound = "simple_selector list"

text \<open>A complex selector, left to right: the first compound, then combinator and compound.\<close>

type_synonym complex = "compound \<times> (combinator \<times> compound) list"

fun split_commas :: "token list \<Rightarrow> token list list" where
  "split_commas [] = [[]]"
| "split_commas (TComma # ts) = [] # split_commas ts"
| "split_commas (t # ts) =
     (case split_commas ts of [] \<Rightarrow> [[t]] | g # gs \<Rightarrow> (t # g) # gs)"

definition strip_ws :: "token list \<Rightarrow> token list" where
  "strip_ws ts =
     rev (dropWhile (\<lambda>t. t = TWhitespace) (rev (dropWhile (\<lambda>t. t = TWhitespace) ts)))"

text \<open>White space around \<open>>\<close> belongs to the child combinator.\<close>

fun drop_ws_before_greater :: "token list \<Rightarrow> token list" where
  "drop_ws_before_greater [] = []"
| "drop_ws_before_greater (t # ts) =
     (if t = TWhitespace \<and> take 1 ts = [TGreater] then drop_ws_before_greater ts
      else t # drop_ws_before_greater ts)"

definition norm_comb :: "token list \<Rightarrow> token list" where
  "norm_comb ts = rev (drop_ws_before_greater (rev (drop_ws_before_greater ts)))"

fun split_comb :: "token list \<Rightarrow> token list \<times> (combinator \<times> token list) list" where
  "split_comb [] = ([], [])"
| "split_comb (TGreater # ts) = (case split_comb ts of (seg, rest) \<Rightarrow> ([], (Child, seg) # rest))"
| "split_comb (TWhitespace # ts) =
     (case split_comb ts of (seg, rest) \<Rightarrow> ([], (Descendant, seg) # rest))"
| "split_comb (t # ts) = (case split_comb ts of (seg, rest) \<Rightarrow> (t # seg, rest))"

text \<open>One simple selector at the head of the tokens.\<close>

definition parse_simple :: "token list \<Rightarrow> (simple_selector \<times> token list) option" where
  "parse_simple ts =
     (case ts of
        THash s ok # r \<Rightarrow> if ok then Some (IdSel s, r) else None
      | TLBracket # r1 \<Rightarrow>
          (case r1 of
             TIdent a # r2 \<Rightarrow>
               (case r2 of
                  TEquals # r3 \<Rightarrow>
                    (case r3 of
                       TString v # r4 \<Rightarrow>
                         (case r4 of TRBracket # r5 \<Rightarrow> Some (AttrEq a v, r5) | _ \<Rightarrow> None)
                     | _ \<Rightarrow> None)
                | _ \<Rightarrow> None)
           | _ \<Rightarrow> None)
      | TColon # r1 \<Rightarrow>
          (case r1 of
             TFunction f # r2 \<Rightarrow>
               (case r2 of
                  TNumber n # r3 \<Rightarrow>
                    (case r3 of
                       TRParen # r4 \<Rightarrow>
                         if toLowerCase f = ''nth-of-type'' then Some (NthOfType n, r4) else None
                     | _ \<Rightarrow> None)
                | _ \<Rightarrow> None)
           | _ \<Rightarrow> None)
      | _ \<Rightarrow> None)"

lemma parse_simple_length:
  "parse_simple ts = Some (x, r) \<Longrightarrow> length r < length ts"
  by (auto simp: parse_simple_def split: list.splits token.splits if_splits)

function parse_simples :: "token list \<Rightarrow> simple_selector list option" where
  "parse_simples ts =
     (if ts = [] then Some []
      else (case parse_simple ts of
              None \<Rightarrow> None
            | Some (x, r) \<Rightarrow> map_option (Cons x) (parse_simples r)))"
  by pat_completeness auto
termination
  by (relation "measure length") (auto dest: parse_simple_length)

declare parse_simples.simps [simp del]

definition parse_compound :: "token list \<Rightarrow> compound option" where
  "parse_compound ts =
     (case ts of
        [] \<Rightarrow> None
      | TIdent t # r \<Rightarrow> map_option (Cons (TypeSel t)) (parse_simples r)
      | _ \<Rightarrow> parse_simples ts)"

definition parse_complex :: "token list \<Rightarrow> complex option" where
  "parse_complex ts =
     (case split_comb (norm_comb (strip_ws ts)) of
        (seg, rest) \<Rightarrow>
          (case parse_compound seg of
             None \<Rightarrow> None
           | Some c \<Rightarrow>
               (case those (map (\<lambda>(cb, g). map_option (Pair cb) (parse_compound g)) rest) of
                  None \<Rightarrow> None
                | Some cs \<Rightarrow> Some (c, cs))))"

definition parse_selector_list :: "string \<Rightarrow> complex list option" where
  "parse_selector_list s =
     (case tokenize s of
        None \<Rightarrow> None
      | Some ts \<Rightarrow> those (map parse_complex (split_commas ts)))"

subsection \<open>Matching\<close>

text \<open>
  Attributes whose values an HTML document compares without regard to ASCII case in an
  attribute selector.
\<close>

definition case_insensitive_attributes :: "string list" where
  "case_insensitive_attributes =
     [''accept'', ''accept-charset'', ''align'', ''alink'', ''axis'', ''bgcolor'', ''charset'',
      ''checked'', ''clear'', ''codetype'', ''color'', ''compact'', ''declare'', ''defer'',
      ''dir'', ''direction'', ''disabled'', ''enctype'', ''face'', ''frame'', ''hreflang'',
      ''http-equiv'', ''lang'', ''language'', ''link'', ''media'', ''method'', ''multiple'',
      ''nohref'', ''noresize'', ''noshade'', ''nowrap'', ''readonly'', ''rel'', ''rev'',
      ''rules'', ''scope'', ''scrolling'', ''selected'', ''shape'', ''target'', ''text'',
      ''type'', ''valign'', ''valuetype'', ''vlink'']"

text \<open>The 1-based position of an element among the siblings with its tag name.\<close>

definition type_index :: "document \<Rightarrow> nat \<Rightarrow> nat" where
  "type_index doc i =
     Suc (length (filter (\<lambda>j. parent_of doc j = parent_of doc i \<and>
                              tagName (doc ! j) = tagName (doc ! i)) [0..<i]))"

fun matches_simple :: "document \<Rightarrow> nat \<Rightarrow> simple_selector \<Rightarrow> bool" where
  "matches_simple doc i (TypeSel t) = (tag_of (doc ! i) = toLowerCase t)"
| "matches_simple doc i (IdSel v) = (getAttribute (doc ! i) ''id'' = Some v)"
| "matches_simple doc i (AttrEq a v) =
     (case getAttribute (doc ! i) (toLowerCase a) of
        None \<Rightarrow> False
      | Some w \<Rightarrow>
          if toLowerCase a \<in> set case_insensitive_attributes
          then toLowerCase w = toLowerCase v else w = v)"
| "matches_simple doc i (NthOfType k) = (type_index doc i = k)"

definition matches_compound :: "document \<Rightarrow> nat \<Rightarrow> compound \<Rightarrow> bool" where
  "matches_compound doc i c = list_all (matches_simple doc i) c"

text \<open>The compounds to the left of the subject, nearest first.\<close>

fun leftward :: "compound \<Rightarrow> (combinator \<times> compound) list \<Rightarrow>
    compound \<times> (combinator \<times> compound) list" where
  "leftward c [] = (c, [])"
| "leftward c ((cb, c') # rest) =
     (case leftward c' rest of (subj, up) \<Rightarrow> (subj, up @ [(cb, c)]))"

fun matches_up :: "document \<Rightarrow> nat \<Rightarrow> (combinator \<times> compound) list \<Rightarrow> bool" where
  "matches_up doc i [] = True"
| "matches_up doc i ((Child, c) # up) =
     (case parent_of doc i of
        None \<Rightarrow> False
      | Some p \<Rightarrow> matches_compound doc p c \<and> matches_up doc p up)"
| "matches_up doc i ((Descendant, c) # up) =
     list_ex (\<lambda>a. matches_compound doc a c \<and> matches_up doc a up)
       (tl (inclusive_ancestors doc i))"

definition matches_complex :: "document \<Rightarrow> nat \<Rightarrow> complex \<Rightarrow> bool" where
  "matches_complex doc i sel =
     (case leftward (fst sel) (snd sel) of
        (subj, up) \<Rightarrow> matches_compound doc i subj \<and> matches_up doc i up)"

definition matches_list :: "document \<Rightarrow> complex list \<Rightarrow> nat \<Rightarrow> bool" where
  "matches_list doc sels i = list_ex (matches_complex doc i) sels"

subsection \<open>Queries\<close>

definition selector_error :: "string \<Rightarrow> js_error" where
  "selector_error s = SyntaxError (s @ '' is not a valid selector.'')"

definition querySelectorAll :: "document \<Rightarrow> string \<Rightarrow> js_error + nat list" where
  "querySelectorAll doc s =
     (case parse_selector_list s of
        None \<Rightarrow> Inl (selector_error s)
      | Some sels \<Rightarrow> Inr (filter (matches_list doc sels) [0..<length doc]))"

definition querySelector :: "document \<Rightarrow> string \<Rightarrow> js_error + nat option" where
  "querySelector doc s =
     (case querySelectorAll doc s of
        Inl e \<Rightarrow> Inl e
      | Inr [] \<Rightarrow> Inr None
      | Inr (i # _) \<Rightarrow> Inr (Some i))"

text \<open>\<open>el.closest(t)\<close> for a type selector \<open>t\<close>: the nearest inclusive ancestor with that tag.\<close>

definition closest_tag :: "document \<Rightarrow> nat \<Rightarrow> string \<Rightarrow> nat option" where
  "closest_tag doc i t = find (\<lambda>a. tag_of (doc ! a) = t) (inclusive_ancestors doc i)"

section \<open>The content script\<close>

subsection \<open>\<open>getLabelText\<close>\<close>

definition getLabelText :: "document \<Rightarrow> nat \<Rightarrow> js_error + string" where
  "getLabelText doc el =
     (let id = attr_or_empty (doc ! el) ''id'' in
      case (if id \<noteq> [] then querySelector doc (''label[for=\"'' @ CSS_escape id @ ''\"]'')
            else Inr None) of
        Inl e \<Rightarrow> Inl e
      | Inr (Some lab) \<Rightarrow> Inr (trim (innerText (doc ! lab)))
      | Inr None \<Rightarrow>
          (case closest_tag doc el ''label'' of
             Some p \<Rightarrow> Inr (trim (innerText (doc ! p)))
           | None \<Rightarrow> Inr []))"

subsection \<open>\<open>buildSelector\<close>\<close>

fun indexOf :: "nat list \<Rightarrow> nat \<Rightarrow> nat option" where
  "indexOf [] x = None"
| "indexOf (y # ys) x = (if y = x then Some 0 else map_option Suc (indexOf ys x))"

text \<open>
  One step of the fallback path: \<open>tag:nth-of-type(idx)\<close>, where \<open>idx\<close> is the position of
  \<open>cur\<close> among the children of its parent with its tag name, and 0 without a parent.
\<close>

definition path_step :: "document \<Rightarrow> nat \<Rightarrow> string" where
  "path_step doc cur =
     (let sibs = (case parent_of doc cur of
                    None \<Rightarrow> []
                  | Some p \<Rightarrow> filter (\<lambda>x. tagName (doc ! x) = tagName (doc ! cur)) (children_of doc p));
          idx = (case indexOf sibs cur of None \<Rightarrow> 0 | Some k \<Rightarrow> k + 1)
      in tag_of (doc ! cur) @ '':nth-of-type('' @ show_nat idx @ '')'')"

text \<open>The loop that walks from the element up to \<open>form\<close>, putting each step in front.\<close>

function path_from :: "document \<Rightarrow> nat option \<Rightarrow> nat \<Rightarrow> string list" where
  "path_from doc form cur =
     (if Some cur = form then []
      else (case parent_of doc cur of
              None \<Rightarrow> [path_step doc cur]
            | Some p \<Rightarrow> path_from doc form p @ [path_step doc cur]))"
  by pat_completeness auto
termination
  by (relation "measure (\<lambda>(doc, form, cur). cur)")
     (auto simp: parent_of_def split: if_splits option.splits)

declare path_from.simps [simp del]

definition name_selector :: "string \<Rightarrow> string \<Rightarrow> string" where
  "name_selector tag name = tag @ ''[name=\"'' @ CSS_escape name @ ''\"]''"

definition buildSelector :: "document \<Rightarrow> nat \<Rightarrow> js_error + string" where
  "buildSelector doc el =
     (let id = attr_or_empty (doc ! el) ''id'' in
      if id \<noteq> [] then Inr (''#'' @ CSS_escape id)
      else
        let name = attr_or_empty (doc ! el) ''name'' in
        if name \<noteq> [] then
          (let tag = tag_of (doc ! el); type = type_of (doc ! el) in
           if type = ''radio'' \<or> type = ''checkbox'' then
             (case querySelectorAll doc (name_selector tag name) of
                Inl e \<Rightarrow> Inl e
              | Inr grp \<Rightarrow>
                  (case indexOf grp el of
                     Some idx \<Rightarrow>
                       Inr (name_selector tag name @ '':nth-of-type('' @ show_nat (idx + 1) @ '')'')
                   | None \<Rightarrow> Inr (name_selector tag name)))
           else Inr (name_selector tag name))
        else
          let aria = attr_or_empty (doc ! el) ''aria-label'' in
          if aria \<noteq> [] then
            Inr (tag_of (doc ! el) @ ''[aria-label=\"'' @ CSS_escape aria @ ''\"]'')
          else
            let form = (case closest_tag doc el ''form'' of
                          Some f \<Rightarrow> Some f
                        | None \<Rightarrow> document_body doc);
                path = path_from doc form el
            in (case form of
                  None \<Rightarrow> Inl (TypeError ''Cannot read properties of null (reading tagName)'')
                | Some f \<Rightarrow>
                    Inr (trim ((if tag_of (doc ! f) = ''form'' then ''form'' else ''body'')
                               @ '' '' @ join '' > '' path))))"

subsection \<open>\<open>extractFields\<close>\<close>

record field =
  f_selector :: string
  f_tag :: string
  f_type :: string
  f_name :: string
  f_id :: string
  f_placeholder :: string
  f_label :: string
  f_children :: nat
  f_value :: string
  f_multiple :: bool
  f_checked :: bool
  f_options :: "(string \<times> string) list option"
  f_radio_group :: "(string \<times> string) list option"

text \<open>\<open>xs.map(f)\<close> where \<open>f\<close> may throw: the first exception ends the map.\<close>

fun map_throwing :: "('a \<Rightarrow> js_error + 'b) \<Rightarrow> 'a list \<Rightarrow> js_error + 'b list" where
  "map_throwing f [] = Inr []"
| "map_throwing f (x # xs) =
     (case f x of
        Inl e \<Rightarrow> Inl e
      | Inr y \<Rightarrow> (case map_throwing f xs of Inl e \<Rightarrow> Inl e | Inr ys \<Rightarrow> Inr (y # ys)))"

definition radio_selector :: "string \<Rightarrow> string" where
  "radio_selector name = ''input[type=\"radio\"][name=\"'' @ CSS_escape name @ ''\"]''"

text \<open>\<open>(r.closest("label")?.innerText || "").trim()\<close>.\<close>

definition closest_label_text :: "document \<Rightarrow> nat \<Rightarrow> string" where
  "closest_label_text doc r =
     trim (case closest_tag doc r ''label'' of Some l \<Rightarrow> innerText (doc ! l) | None \<Rightarrow> [])"

definition describe_field :: "document \<Rightarrow> nat \<Rightarrow> js_error + field" where
  "describe_field doc el =
     (let e = doc ! el in
      case buildSelector doc el of
        Inl err \<Rightarrow> Inl err
      | Inr sel \<Rightarrow>
      (case getLabelText doc el of
        Inl err \<Rightarrow> Inl err
      | Inr lab \<Rightarrow>
      (case (if prop_type e = ''radio'' \<and> prop_name e \<noteq> [] then
               (case querySelectorAll doc (radio_selector (prop_name e)) of
                  Inl err \<Rightarrow> Inl err
                | Inr rs \<Rightarrow>
                    Inr (Some (map (\<lambda>r. (elem_value (doc ! r), closest_label_text doc r)) rs)))
             else Inr None) of
        Inl err \<Rightarrow> Inl err
      | Inr rg \<Rightarrow>
          Inr \<lparr> f_selector = sel,
                f_tag = tag_of e,
                f_type = type_of e,
                f_name = attr_or_empty e ''name'',
                f_id = attr_or_empty e ''id'',
                f_placeholder = attr_or_empty e ''placeholder'',
                f_label = lab,
                f_children = length (children_of doc el),
                f_value = take 200 (elem_value e),
                f_multiple = (if tag_of e = ''select'' then prop_multiple e else False),
                f_checked = (if prop_type e = ''checkbox'' \<or> prop_type e = ''radio''
                             then checked e else False),
                f_options = (if tag_of e = ''select''
                             then Some (map (\<lambda>opt. (option_value (doc ! opt), trim (innerText (doc ! opt))))
                                         (options_of doc el))
                             else None),
                f_radio_group = rg \<rparr>)))"

definition excluded_types :: "string list" where
  "excluded_types = [''hidden'', ''submit'', ''button'', ''reset'', ''file'']"

definition extractFields :: "document \<Rightarrow> js_error + field list" where
  "extractFields doc =
     (case querySelectorAll doc ''input, textarea, select'' of
        Inl e \<Rightarrow> Inl e
      | Inr cands \<Rightarrow>
          map_throwing (describe_field doc)
            (filter (\<lambda>el. type_of (doc ! el) \<notin> set excluded_types)
               (filter (\<lambda>el. \<not> prop_disabled (doc ! el)) cands)))"

subsection \<open>The \<open>APPLY_MAPPINGS\<close> loop\<close>

text \<open>
  The assignments and event dispatches of the script are kept in a log, next to the
  document they change. An assignment changes the property it names and nothing else:
  what the page does in reaction (listeners, a radio group releasing its other members)
  is outside the script. The selector of a mapping is resolved by \<open>resolve\<close> and its
  JSON text is read by \<open>json_parse\<close> (\<open>None\<close> when \<open>JSON.parse\<close> throws); both are
  parameters, so that every statement below holds for any selector engine and any parser.
\<close>

datatype dom_write =
    SetChecked nat bool
  | SetSelected nat bool
  | SetValue nat string
  | DispatchEvent nat string

record apply_state =
  dom :: document
  writes :: "dom_write list"
  updated :: nat
  skipped :: nat

type_synonym resolver = "document \<Rightarrow> string \<Rightarrow> js_error + nat option"

type_synonym json_parser = "string \<Rightarrow> jsval option"

definition set_checked :: "document \<Rightarrow> nat \<Rightarrow> bool \<Rightarrow> document" where
  "set_checked d n b = d[n := (d ! n)\<lparr>checked := b\<rparr>]"

definition set_selected :: "document \<Rightarrow> nat \<Rightarrow> bool \<Rightarrow> document" where
  "set_selected d n b = d[n := (d ! n)\<lparr>selected := b\<rparr>]"

definition set_value :: "document \<Rightarrow> nat \<Rightarrow> string \<Rightarrow> document" where
  "set_value d n v = d[n := (d ! n)\<lparr>elem_value := v\<rparr>]"

text \<open>The \<open>input\<close> event, then the \<open>change\<close> event.\<close>

definition dispatch_events :: "nat \<Rightarrow> dom_write list" where
  "dispatch_events n = [DispatchEvent n ''input'', DispatchEvent n ''change'']"

definition skip :: "apply_state \<Rightarrow> apply_state" where
  "skip st = st\<lparr>skipped := skipped st + 1\<rparr>"

text \<open>\<open>(m?.kind || "").toLowerCase()\<close>: a truthy kind that is no string has no such method.\<close>

definition kind_of :: "jsval \<Rightarrow> js_error + string" where
  "kind_of m =
     (let k = get_prop m ''kind'' in
      if truthy k then
        (case k of
           JStr s \<Rightarrow> Inr (toLowerCase s)
         | _ \<Rightarrow> Inl (TypeError ''(m?.kind || \"\").toLowerCase is not a function''))
      else Inr [])"

text \<open>The normalisation of a \<open>multi_select\<close> value that looks like a JSON array.\<close>

definition normalize_value :: "json_parser \<Rightarrow> string \<Rightarrow> jsval \<Rightarrow> jsval" where
  "normalize_value json_parse kind raw =
     (if kind = ''multi_select'' then
        (case raw of
           JStr v \<Rightarrow>
             (let s = trim v in
              if startsWith s ''['' \<and> endsWith s '']'' then
                (case json_parse s of
                   Some (JArr arr) \<Rightarrow> JArr arr
                 | _ \<Rightarrow> raw)
              else raw)
         | _ \<Rightarrow> raw)
      else raw)"

definition truthy_tokens :: "string list" where
  "truthy_tokens = [''true'', ''yes'', ''1'', ''checked'', ''on'']"

text \<open>\<open>String(val ?? "").trim().toLowerCase()\<close>.\<close>

definition token_of :: "jsval \<Rightarrow> string" where
  "token_of v = toLowerCase (trim (js_String (nullish_empty v)))"

definition apply_checkbox :: "apply_state \<Rightarrow> nat \<Rightarrow> jsval \<Rightarrow> apply_state" where
  "apply_checkbox st el v =
     (let b = (token_of v \<in> set truthy_tokens) in
      st\<lparr>dom := set_checked (dom st) el b,
         writes := writes st @ SetChecked el b # dispatch_events el,
         updated := updated st + 1\<rparr>)"

text \<open>
  The member of the radio group to check: by value first, then by the text of the
  enclosing label.
\<close>

definition radio_pick :: "document \<Rightarrow> nat list \<Rightarrow> string \<Rightarrow> nat option" where
  "radio_pick d grp v =
     (case find (\<lambda>r. toLowerCase (trim (elem_value (d ! r))) = v) grp of
        Some r \<Rightarrow> Some r
      | None \<Rightarrow> find (\<lambda>r. toLowerCase (closest_label_text d r) = v) grp)"

definition check_radio :: "apply_state \<Rightarrow> nat \<Rightarrow> apply_state" where
  "check_radio st r =
     st\<lparr>dom := set_checked (dom st) r True,
        writes := writes st @ SetChecked r True # dispatch_events r,
        updated := updated st + 1\<rparr>"

definition apply_radio :: "apply_state \<Rightarrow> nat \<Rightarrow> jsval \<Rightarrow> js_error + apply_state" where
  "apply_radio st el v =
     (let tok = token_of v; name = prop_name (dom st ! el) in
      case (if name \<noteq> [] then
              (case querySelectorAll (dom st) (radio_selector name) of
                 Inl e \<Rightarrow> Inl e
               | Inr grp \<Rightarrow> Inr (radio_pick (dom st) grp tok))
            else Inr None) of
        Inl e \<Rightarrow> Inl e
      | Inr (Some pick) \<Rightarrow> Inr (check_radio st pick)
      | Inr None \<Rightarrow>
          if tok \<in> set truthy_tokens then Inr (check_radio st el) else Inr (skip st))"

text \<open>The wanted tokens of a select: each trimmed and lower-cased, the empty ones dropped.\<close>

definition wanted_tokens :: "jsval \<Rightarrow> string list" where
  "wanted_tokens v =
     (case v of
        JArr xs \<Rightarrow> filter (\<lambda>w. w \<noteq> []) (map (\<lambda>x. toLowerCase (trim (js_String x))) xs)
      | _ \<Rightarrow> filter (\<lambda>w. w \<noteq> []) [token_of v])"

definition resolveOne :: "document \<Rightarrow> nat list \<Rightarrow> string \<Rightarrow> nat option" where
  "resolveOne d opts w =
     (case find (\<lambda>opt. toLowerCase (trim (option_value (d ! opt))) = w) opts of
        Some opt \<Rightarrow> Some opt
      | None \<Rightarrow> find (\<lambda>opt. toLowerCase (trim (innerText (d ! opt))) = w) opts)"

text \<open>\<open>for (const o of options) o.selected = false\<close>.\<close>

fun deselect_all :: "apply_state \<Rightarrow> nat list \<Rightarrow> apply_state" where
  "deselect_all st [] = st"
| "deselect_all st (opt # opts) =
     deselect_all (st\<lparr>dom := set_selected (dom st) opt False,
                       writes := writes st @ [SetSelected opt False]\<rparr>) opts"

text \<open>The loop over the wanted tokens; the flag is \<open>any\<close>.\<close>

fun select_wanted :: "nat list \<Rightarrow> apply_state \<times> bool \<Rightarrow> string list \<Rightarrow> apply_state \<times> bool" where
  "select_wanted opts (st, any) [] = (st, any)"
| "select_wanted opts (st, any) (w # ws) =
     (case resolveOne (dom st) opts w of
        Some opt \<Rightarrow>
          select_wanted opts
            (st\<lparr>dom := set_selected (dom st) opt True,
                writes := writes st @ [SetSelected opt True]\<rparr>, True) ws
      | None \<Rightarrow> select_wanted opts (st, any) ws)"

definition apply_select :: "apply_state \<Rightarrow> nat \<Rightarrow> jsval \<Rightarrow> apply_state" where
  "apply_select st el v =
     (let isMultiple = prop_multiple (dom st ! el); wanted = wanted_tokens v in
      if wanted = [] then skip st
      else
        let opts = options_of (dom st) el in
        if isMultiple then
          (case select_wanted opts (deselect_all st opts, False) wanted of
             (st', any) \<Rightarrow>
               if \<not> any then skip st'
               else st'\<lparr>writes := writes st' @ dispatch_events el, updated := updated st' + 1\<rparr>)
        else
          (case resolveOne (dom st) opts (hd wanted) of
             None \<Rightarrow> skip st
           | Some opt \<Rightarrow>
               st\<lparr>dom := set_value (dom st) el (option_value (dom st ! opt)),
                  writes := writes st @ SetValue el (option_value (dom st ! opt)) # dispatch_events el,
                  updated := updated st + 1\<rparr>))"

definition apply_text :: "apply_state \<Rightarrow> nat \<Rightarrow> jsval \<Rightarrow> apply_state" where
  "apply_text st el v =
     (let textValue = (if v = JNull \<or> v = JUndefined then [] else js_String v) in
      st\<lparr>dom := set_value (dom st) el textValue,
         writes := writes st @ SetValue el textValue # dispatch_events el,
         updated := updated st + 1\<rparr>)"

text \<open>\<open>try { el = document.querySelector(sel); } catch { el = null; }\<close>.\<close>

definition resolve_element :: "resolver \<Rightarrow> document \<Rightarrow> jsval \<Rightarrow> nat option" where
  "resolve_element resolve d sel =
     (case resolve d (js_String sel) of Inl e \<Rightarrow> None | Inr r \<Rightarrow> r)"

text \<open>
  The body of the loop for one mapping. \<open>Inl\<close> is an exception that leaves the loop; it
  is raised before the body has written anything.
\<close>

definition apply_one ::
    "resolver \<Rightarrow> json_parser \<Rightarrow> apply_state \<Rightarrow> jsval \<Rightarrow> js_error + apply_state" where
  "apply_one resolve json_parse st m =
     (let sel = get_prop m ''selector''; raw = get_prop m ''value'' in
      case kind_of m of
        Inl e \<Rightarrow> Inl e
      | Inr kind \<Rightarrow>
          if \<not> truthy sel then Inr (skip st)
          else
            (case resolve_element resolve (dom st) sel of
               None \<Rightarrow> Inr (skip st)
             | Some el \<Rightarrow>
                 (let tag = tag_of (dom st ! el); type = type_of (dom st ! el) in
                  if type = ''file'' then Inr (skip st)
                  else
                    let v = normalize_value json_parse kind raw in
                    if type = ''checkbox'' then Inr (apply_checkbox st el v)
                    else if type = ''radio'' then apply_radio st el v
                    else if tag = ''select'' then Inr (apply_select st el v)
                    else Inr (apply_text st el v))))"

text \<open>The loop: the state when it ends, and the exception that ended it, if any.\<close>

fun apply_loop ::
    "resolver \<Rightarrow> json_parser \<Rightarrow> apply_state \<Rightarrow> jsval list \<Rightarrow> apply_state \<times> js_error option" where
  "apply_loop resolve json_parse st [] = (st, None)"
| "apply_loop resolve json_parse st (m # ms) =
     (case apply_one resolve json_parse st m of
        Inl e \<Rightarrow> (st, Some e)
      | Inr st' \<Rightarrow> apply_loop resolve json_parse st' ms)"

definition initial_state :: "document \<Rightarrow> apply_state" where
  "initial_state doc = \<lparr>dom = doc, writes = [], updated = 0, skipped = 0\<rparr>"

definition applyMappings ::
    "resolver \<Rightarrow> json_parser \<Rightarrow> document \<Rightarrow> jsval list \<Rightarrow> apply_state \<times> js_error option" where
  "applyMappings resolve json_parse doc ms = apply_loop resolve json_parse (initial_state doc) ms"

subsection \<open>The message listener\<close>

datatype response =
    FieldsResponse "field list"
  | CountsResponse nat nat
  | ErrorResponse string

text \<open>\<open>for (const m of (msg.mappings || []))\<close>: arrays and strings can be iterated.\<close>

definition iterate_mappings :: "jsval \<Rightarrow> js_error + jsval list" where
  "iterate_mappings v =
     (if \<not> truthy v then Inr []
      else (case v of
              JArr xs \<Rightarrow> Inr xs
            | JStr s \<Rightarrow> Inr (map (\<lambda>c. JStr [c]) s)
            | _ \<Rightarrow> Inl (TypeError ''(msg.mappings || []) is not iterable'')))"

text \<open>
  The listener: the response it sends, if any, the document it leaves and the writes it
  made. The \<open>try\<close> block becomes the case distinction on the outcome of its body.
\<close>

definition onMessage ::
    "resolver \<Rightarrow> json_parser \<Rightarrow> document \<Rightarrow> jsval \<Rightarrow> response option \<times> document \<times> dom_write list" where
  "onMessage resolve json_parse doc msg =
     (if get_prop msg ''type'' = JStr ''EXTRACT_FORM_FIELDS'' then
        (case extractFields doc of
           Inl e \<Rightarrow> (Some (ErrorResponse (error_string e)), doc, [])
         | Inr fs \<Rightarrow> (Some (FieldsResponse fs), doc, []))
      else if get_prop msg ''type'' = JStr ''APPLY_MAPPINGS'' then
        (case iterate_mappings (get_prop msg ''mappings'') of
           Inl e \<Rightarrow> (Some (ErrorResponse (error_string e)), doc, [])
         | Inr ms \<Rightarrow>
             (case applyMappings resolve json_parse doc ms of
                (st, Some e) \<Rightarrow> (Some (ErrorResponse (error_string e)), dom st, writes st)
              | (st, None) \<Rightarrow>
                  (Some (CountsResponse (updated st) (skipped st)), dom st, writes st)))
      else (None, doc, []))"

subsection \<open>Notions used in the statements\<close>

text \<open>
  A mapping resolves when its selector is truthy and the engine finds an element for it in
  the document as it stands when the mapping is applied.
\<close>

definition resolves :: "resolver \<Rightarrow> document \<Rightarrow> jsval \<Rightarrow> bool" where
  "resolves resolve d m =
     (truthy (get_prop m ''selector'') \<and>
      resolve_element resolve d (get_prop m ''selector'') \<noteq> None)"

text \<open>The number of mappings of a batch that resolve, each in the state it is applied in.\<close>

fun resolvable_count :: "resolver \<Rightarrow> json_parser \<Rightarrow> apply_state \<Rightarrow> jsval list \<Rightarrow> nat" where
  "resolvable_count resolve json_parse st [] = 0"
| "resolvable_count resolve json_parse st (m # ms) =
     (if resolves resolve (dom st) m then 1 else 0) +
     (case apply_one resolve json_parse st m of
        Inl e \<Rightarrow> 0
      | Inr st' \<Rightarrow> resolvable_count resolve json_parse st' ms)"

text \<open>
  Two mappings that differ at most in their kind, where either both kinds can be lower-cased
  (each is falsy or a string) and neither is \<open>multi_select\<close> in any letter case, or
  neither kind can be lower-cased (each is truthy and no string).
\<close>

definition kind_variant :: "jsval \<Rightarrow> jsval \<Rightarrow> bool" where
  "kind_variant m m' =
     (get_prop m ''selector'' = get_prop m' ''selector'' \<and>
      get_prop m ''value'' = get_prop m' ''value'' \<and>
      (case kind_of m of
         Inl e \<Rightarrow> (case kind_of m' of Inl e' \<Rightarrow> True | Inr k' \<Rightarrow> False)
       | Inr k \<Rightarrow>
           (case kind_of m' of
              Inl e' \<Rightarrow> False
            | Inr k' \<Rightarrow> k \<noteq> ''multi_select'' \<and> k' \<noteq> ''multi_select'')))"

text \<open>What no assignment of the script changes: the tag, the attributes, the parent, the text.\<close>

definition static_part ::
    "element \<Rightarrow> string \<times> (string \<times> string) list \<times> nat option \<times> string" where
  "static_part e = (tagName e, attributes e, parentElement e, innerText e)"




section \<open>Instances for the examples\<close>

text \<open>
  A parser for the examples: it reads a JSON array of string literals without escapes, as
  \<open>JSON.parse\<close> does, and rejects every other text.
\<close>

datatype json_state = JStart | JValueOrEnd | JValue | JInString string | JAfterValue | JDone

definition is_json_ws :: "char \<Rightarrow> bool" where
  "is_json_ws c = (let n = (of_char c :: nat) in n = 9 \<or> n = 10 \<or> n = 13 \<or> n = 32)"

lemma is_json_ws_code [code]:
  "is_json_ws (Char b0 b1 b2 b3 b4 b5 b6 b7) =
     (((b7 \<or> (b6 \<or> (b5 \<or> (b4 \<or> (b3 \<and> (b2 \<or> (b1 \<or> b0))))))) \<and> (\<not> b7 \<and> (\<not> b6 \<and> (\<not> b5 \<and> (\<not> b4 \<and> (\<not> b3 \<or> (\<not> b2 \<and> (\<not> b1 \<or> \<not> b0)))))))) \<or> ((b7 \<or> (b6 \<or> (b5 \<or> (b4 \<or> (b3 \<and> (b2 \<and> (b1 \<or> b0))))))) \<and> (\<not> b7 \<and> (\<not> b6 \<and> (\<not> b5 \<and> (\<not> b4 \<and> (\<not> b3 \<or> (\<not> b2 \<or> \<not> b1))))))) \<or>
      ((b7 \<or> (b6 \<or> b5)) \<and> (\<not> b7 \<and> (\<not> b6 \<and> (\<not> b5 \<or> (\<not> b4 \<and> (\<not> b3 \<and> (\<not> b2 \<and> (\<not> b1 \<and> \<not> b0)))))))))"
  by (cases b0; cases b1; cases b2; cases b3; cases b4; cases b5; cases b6; cases b7)
     (simp_all add: is_json_ws_def)

definition is_json_control :: "char \<Rightarrow> bool" where
  "is_json_control c = ((of_char c :: nat) < 32)"

lemma is_json_control_code [code]:
  "is_json_control (Char b0 b1 b2 b3 b4 b5 b6 b7) =
     (\<not> b7 \<and> (\<not> b6 \<and> \<not> b5))"
  by (cases b0; cases b1; cases b2; cases b3; cases b4; cases b5; cases b6; cases b7)
     (simp_all add: is_json_control_def)

fun scan_string_array :: "json_state \<Rightarrow> string list \<Rightarrow> string \<Rightarrow> string list option" where
  "scan_string_array st acc [] = (if st = JDone then Some (rev acc) else None)"
| "scan_string_array st acc (c # cs) =
     (case st of
        JStart \<Rightarrow>
          if is_json_ws c then scan_string_array JStart acc cs
          else if c = CHR ''['' then scan_string_array JValueOrEnd acc cs
          else None
      | JValueOrEnd \<Rightarrow>
          if is_json_ws c then scan_string_array JValueOrEnd acc cs
          else if c = CHR '']'' then scan_string_array JDone acc cs
          else if c = CHR 0x22 then scan_string_array (JInString []) acc cs
          else None
      | JValue \<Rightarrow>
          if is_json_ws c then scan_string_array JValue acc cs
          else if c = CHR 0x22 then scan_string_array (JInString []) acc cs
          else None
      | JInString a \<Rightarrow>
          if c = CHR 0x22 then scan_string_array JAfterValue (rev a # acc) cs
          else if c = CHR 0x5C \<or> is_json_control c then None
          else scan_string_array (JInString (c # a)) acc cs
      | JAfterValue \<Rightarrow>
          if is_json_ws c then scan_string_array JAfterValue acc cs
          else if c = CHR '','' then scan_string_array JValue acc cs
          else if c = CHR '']'' then scan_string_array JDone acc cs
          else None
      | JDone \<Rightarrow> if is_json_ws c then scan_string_array JDone acc cs else None)"

definition parse_string_array :: json_parser where
  "parse_string_array s = map_option (\<lambda>xs. JArr (map JStr xs)) (scan_string_array JStart [] s)"

text \<open>An element with the given tag, attributes, parent, text and value, unchecked.\<close>

definition make_element ::
    "string \<Rightarrow> (string \<times> string) list \<Rightarrow> nat option \<Rightarrow> string \<Rightarrow> string \<Rightarrow> element" where
  "make_element t a p txt v =
     \<lparr>tagName = t, attributes = a, parentElement = p, innerText = txt, elem_value = v,
      checked = False, selected = False\<rparr>"

text \<open>
  The page of the end-to-end scenario: a text input with an id, two radio buttons that
  share a name, and a select, all children of the body.
\<close>

definition scenario_page :: document where
  "scenario_page =
     [make_element ''HTML'' [] None [] [],
      make_element ''BODY'' [] (Some 0) [] [],
      make_element ''INPUT'' [(''id'', ''name'')] (Some 1) [] [],
      make_element ''INPUT'' [(''type'', ''radio''), (''name'', ''sex''), (''value'', ''M'')]
        (Some 1) [] ''M'',
      make_element ''INPUT'' [(''type'', ''radio''), (''name'', ''sex''), (''value'', ''F'')]
        (Some 1) [] ''F'',
      make_element ''SELECT'' [(''id'', ''country'')] (Some 1) [] [],
      make_element ''OPTION'' [(''value'', ''US'')] (Some 5) ''United States'' ''US'']"

definition make_mapping :: "string \<Rightarrow> string \<Rightarrow> string \<Rightarrow> jsval" where
  "make_mapping sel kind v =
     JObj [(''selector'', JStr sel), (''kind'', JStr kind), (''value'', JStr v)]"

text \<open>The mappings of the scenario.\<close>

definition scenario_mappings :: "jsval list" where
  "scenario_mappings =
     [make_mapping ''#name'' ''text'' ''Alice'',
      make_mapping ''input[name=\"sex\"]:nth-of-type(2)'' ''radio'' ''F'',
      make_mapping ''#country'' ''select'' ''United States'']"

text \<open>A mapping for the text input of the page, and one whose selector finds nothing.\<close>

definition two_mappings :: "jsval list" where
  "two_mappings = [make_mapping ''#name'' ''text'' ''Alice'', make_mapping ''#missing'' ''text'' ''x'']"

text \<open>
  A page with a file input, a checkbox, a select for several colours (Green selected) and
  two radio buttons of one group, each inside its own label.
\<close>

definition controls_page :: document where
  "controls_page =
     [make_element ''HTML'' [] None [] [],
      make_element ''BODY'' [] (Some 0) [] [],
      make_element ''INPUT'' [(''type'', ''file''), (''id'', ''cv'')] (Some 1) [] [],
      make_element ''INPUT'' [(''type'', ''checkbox''), (''id'', ''agree'')] (Some 1) [] ''on'',
      make_element ''SELECT'' [(''id'', ''colors''), (''multiple'', [])] (Some 1) [] [],
      make_element ''OPTION'' [] (Some 4) ''Red'' [],
      make_element ''OPTION'' [] (Some 4) ''Blue'' [],
      (make_element ''OPTION'' [] (Some 4) ''Green'' [])\<lparr>selected := True\<rparr>,
      make_element ''LABEL'' [] (Some 1) ''Male'' [],
      make_element ''INPUT'' [(''type'', ''radio''), (''name'', ''sex''), (''value'', ''M'')]
        (Some 8) [] ''M'',
      make_element ''LABEL'' [] (Some 1) ''Female'' [],
      make_element ''INPUT'' [(''type'', ''radio''), (''name'', ''sex''), (''value'', ''F'')]
        (Some 10) [] ''F'']"

text \<open>Pages with one input: an id that needs escapes, an empty id, an id that is NUL.\<close>

definition odd_id_page :: document where
  "odd_id_page =
     [make_element ''HTML'' [] None [] [],
      make_element ''BODY'' [] (Some 0) [] [],
      make_element ''INPUT'' [(''id'', ''1a b'')] (Some 1) [] []]"

definition empty_id_page :: document where
  "empty_id_page =
     [make_element ''HTML'' [] None [] [],
      make_element ''BODY'' [] (Some 0) [] [],
      make_element ''INPUT'' [(''id'', []), (''name'', ''n'')] (Some 1) [] []]"

definition nul_id_page :: document where
  "nul_id_page =
     [make_element ''HTML'' [] None [] [],
      make_element ''BODY'' [] (Some 0) [] [],
      make_element ''INPUT'' [(''id'', [CHR 0x00])] (Some 1) [] []]"


text \<open>A document without a body: an input directly under the root.\<close>

definition no_body_page :: document where
  "no_body_page =
     [make_element ''HTML'' [] None [] [],
      make_element ''INPUT'' [] (Some 0) [] []]"

section \<open>Properties of the loop\<close>

lemma deselect_all_counts:
  "updated (deselect_all st opts) = updated st \<and> skipped (deselect_all st opts) = skipped st"
  by (induction opts arbitrary: st) auto

lemma select_wanted_counts:
  "select_wanted opts (st, a) ws = (st', a') \<Longrightarrow>
   updated st' = updated st \<and> skipped st' = skipped st"
  by (induction ws arbitrary: st a) (auto split: option.splits)

lemma apply_select_counts:
  "(updated (apply_select st el v) = updated st + 1 \<and>
      skipped (apply_select st el v) = skipped st) \<or>
   (updated (apply_select st el v) = updated st \<and>
      skipped (apply_select st el v) = skipped st + 1)"
proof -
  obtain st' a' where sw:
    "select_wanted (options_of (dom st) el) (deselect_all st (options_of (dom st) el), False)
       (wanted_tokens v) = (st', a')"
    by (cases "select_wanted (options_of (dom st) el)
                 (deselect_all st (options_of (dom st) el), False) (wanted_tokens v)")
  from select_wanted_counts [OF sw] deselect_all_counts [of st "options_of (dom st) el"]
  have "updated st' = updated st \<and> skipped st' = skipped st" by simp
  with sw show ?thesis
    by (auto simp: apply_select_def skip_def Let_def split: option.splits)
qed

lemma apply_radio_counts:
  "apply_radio st el v = Inr st' \<Longrightarrow>
   (updated st' = updated st + 1 \<and> skipped st' = skipped st) \<or>
   (updated st' = updated st \<and> skipped st' = skipped st + 1)"
  by (auto simp: apply_radio_def check_radio_def skip_def Let_def
           split: if_splits sum.splits option.splits)

text \<open>
  One mapping moves exactly one of the two counters by one, and \<open>updated\<close> only when the
  mapping resolves.
\<close>

lemma apply_one_counts:
  assumes "apply_one resolve json_parse st m = Inr st'"
  shows "(updated st' = updated st + 1 \<and> skipped st' = skipped st \<and>
            resolves resolve (dom st) m) \<or>
         (updated st' = updated st \<and> skipped st' = skipped st + 1)"
proof -
  obtain k where k: "kind_of m = Inr k"
    using assms by (cases "kind_of m") (auto simp: apply_one_def Let_def)
  show ?thesis
  proof (cases "resolves resolve (dom st) m")
    case False
    with assms k show ?thesis
      by (auto simp: apply_one_def resolves_def skip_def Let_def split: if_splits option.splits)
  next
    case True
    then obtain el where el:
      "truthy (get_prop m ''selector'')"
      "resolve_element resolve (dom st) (get_prop m ''selector'') = Some el"
      by (auto simp: resolves_def)
    let ?v = "normalize_value json_parse k (get_prop m ''value'')"
    from assms k el have
      "st' = skip st \<or> st' = apply_checkbox st el ?v \<or> apply_radio st el ?v = Inr st' \<or>
       st' = apply_select st el ?v \<or> st' = apply_text st el ?v"
      by (auto simp: apply_one_def Let_def split: if_splits)
    with True apply_select_counts [of st el ?v] apply_radio_counts [of st el ?v st']
    show ?thesis
      by (auto simp: skip_def apply_checkbox_def apply_text_def Let_def)
  qed
qed

lemma apply_loop_counts:
  "apply_loop resolve json_parse st ms = (st', None) \<Longrightarrow>
   updated st' + skipped st' = updated st + skipped st + length ms \<and>
   updated st' \<le> updated st + resolvable_count resolve json_parse st ms"
proof (induction ms arbitrary: st)
  case Nil
  then show ?case by simp
next
  case (Cons m ms)
  from Cons.prems obtain st1 where
    one: "apply_one resolve json_parse st m = Inr st1" and
    rest: "apply_loop resolve json_parse st1 ms = (st', None)"
    by (auto split: sum.splits)
  from Cons.IH [OF rest] apply_one_counts [OF one] one
  show ?case by auto
qed

text \<open>
  C1. When the batch runs to its end without an exception, the two counters add up to the
  number of mappings, and \<open>updated\<close> is at most the number of mappings whose selector
  resolved to an element when the mapping was applied.
\<close>

theorem applyMappings_counts:
  assumes "applyMappings resolve json_parse doc ms = (st, None)"
  shows "updated st + skipped st = length ms \<and>
         updated st \<le> resolvable_count resolve json_parse (initial_state doc) ms"
  using apply_loop_counts [of resolve json_parse "initial_state doc" ms st] assms
  by (simp add: applyMappings_def initial_state_def)

theorem applyMappings_counts_witness:
  "applyMappings querySelector parse_string_array scenario_page two_mappings =
     (fst (applyMappings querySelector parse_string_array scenario_page two_mappings), None) \<and>
   updated (fst (applyMappings querySelector parse_string_array scenario_page two_mappings)) = 1 \<and>
   skipped (fst (applyMappings querySelector parse_string_array scenario_page two_mappings)) = 1 \<and>
   resolvable_count querySelector parse_string_array (initial_state scenario_page)
     two_mappings = 1"
proof -
  let ?r = "applyMappings querySelector parse_string_array scenario_page two_mappings"
  have "snd ?r = None" by code_simp
  then have h: "?r = (fst ?r, None)" by (metis prod.collapse)
  have u: "updated (fst ?r) = 1" by code_simp
  have k: "resolvable_count querySelector parse_string_array (initial_state scenario_page)
     two_mappings = 1" by code_simp
  have n: "length two_mappings = 2" by (simp add: two_mappings_def)
  from applyMappings_counts [OF h] u k n h show ?thesis by simp
qed

lemma normalize_value_other_kind:
  "k \<noteq> ''multi_select'' \<Longrightarrow> normalize_value json_parse k raw = raw"
  by (simp add: normalize_value_def)

lemma kind_of_Inl:
  "kind_of m = Inl e \<Longrightarrow> e = TypeError ''(m?.kind || \"\").toLowerCase is not a function''"
  by (auto simp: kind_of_def Let_def split: if_splits jsval.splits)

lemma apply_one_kind_variant:
  assumes "kind_variant m m'"
  shows "apply_one resolve json_parse st m = apply_one resolve json_parse st m'"
proof (cases "kind_of m")
  case (Inl e)
  with assms obtain e' where e': "kind_of m' = Inl e'"
    by (auto simp: kind_variant_def split: sum.splits)
  from kind_of_Inl [OF Inl] kind_of_Inl [OF e'] have "e' = e" by simp
  with Inl e' show ?thesis by (simp add: apply_one_def Let_def)
next
  case (Inr k)
  with assms obtain k' where
    k: "k \<noteq> ''multi_select''" and
    k': "kind_of m' = Inr k'" "k' \<noteq> ''multi_select''"
    by (auto simp: kind_variant_def split: sum.splits)
  from assms have same:
    "get_prop m ''selector'' = get_prop m' ''selector''"
    "get_prop m ''value'' = get_prop m' ''value''"
    by (simp_all add: kind_variant_def)
  have n: "normalize_value json_parse k (get_prop m' ''value'') = get_prop m' ''value''"
    "normalize_value json_parse k' (get_prop m' ''value'') = get_prop m' ''value''"
    using k k' by (simp_all add: normalize_value_other_kind)
  show ?thesis
    by (simp add: apply_one_def Let_def same Inr k'(1) n split: option.splits)
qed

lemma apply_loop_kind_variant:
  "list_all2 kind_variant ms ms' \<Longrightarrow>
   apply_loop resolve json_parse st ms = apply_loop resolve json_parse st ms'"
proof (induction ms ms' arbitrary: st rule: list_all2_induct)
  case Nil
  then show ?case by simp
next
  case (Cons m ms m' ms')
  then show ?case
    by (simp add: apply_one_kind_variant [of m m'] split: sum.splits)
qed

text \<open>
  C2 (as amended). Two batches that differ only in the kinds of their mappings leave the
  same document, the same writes and the same counters, and end the same way, when for
  each pair of kinds either both can be lower-cased (each is falsy or a string) and
  neither is \<open>multi_select\<close> in any letter case, or neither can be lower-cased (each is
  truthy and no string; the batch then ends at that mapping with a \<open>TypeError\<close>). The
  kind is read by the normalisation of a \<open>multi_select\<close> value and nowhere else.
\<close>

theorem kind_is_only_a_hint:
  assumes "list_all2 kind_variant ms ms'"
  shows "applyMappings resolve json_parse doc ms = applyMappings resolve json_parse doc ms'"
  using apply_loop_kind_variant [OF assms] by (simp add: applyMappings_def)

theorem kind_is_only_a_hint_witness:
  "list_all2 kind_variant
     [make_mapping ''#agree'' ''checkbox'' ''yes'', make_mapping ''#colors'' ''select'' ''Blue'',
      JObj [(''selector'', JStr ''#cv''), (''kind'', JNum 5)]]
     [make_mapping ''#agree'' ''TEXT'' ''yes'',
      JObj [(''selector'', JStr ''#colors''), (''value'', JStr ''Blue'')],
      JObj [(''selector'', JStr ''#cv''), (''kind'', JBool True)]] \<and>
   applyMappings querySelector parse_string_array controls_page
     [make_mapping ''#agree'' ''checkbox'' ''yes'', make_mapping ''#colors'' ''select'' ''Blue'',
      JObj [(''selector'', JStr ''#cv''), (''kind'', JNum 5)]] =
   applyMappings querySelector parse_string_array controls_page
     [make_mapping ''#agree'' ''TEXT'' ''yes'',
      JObj [(''selector'', JStr ''#colors''), (''value'', JStr ''Blue'')],
      JObj [(''selector'', JStr ''#cv''), (''kind'', JBool True)]]"
proof -
  have h: "list_all2 kind_variant
     [make_mapping ''#agree'' ''checkbox'' ''yes'', make_mapping ''#colors'' ''select'' ''Blue'',
      JObj [(''selector'', JStr ''#cv''), (''kind'', JNum 5)]]
     [make_mapping ''#agree'' ''TEXT'' ''yes'',
      JObj [(''selector'', JStr ''#colors''), (''value'', JStr ''Blue'')],
      JObj [(''selector'', JStr ''#cv''), (''kind'', JBool True)]]"
    by code_simp
  from kind_is_only_a_hint [OF h] h show ?thesis by simp
qed

text \<open>
  The claim as stated fails when one of the two kinds is truthy and no string: with the
  kind \<open>text\<close> the checkbox is written and counted, with the kind \<open>5\<close> the batch ends with
  a \<open>TypeError\<close> and nothing is written. Neither kind is \<open>multi_select\<close>.
\<close>

theorem numeric_kind_counterexample:
  "applyMappings querySelector parse_string_array controls_page
     [make_mapping ''#agree'' ''text'' ''yes''] =
     (\<lparr>dom = set_checked controls_page 3 True,
       writes = [SetChecked 3 True, DispatchEvent 3 ''input'', DispatchEvent 3 ''change''],
       updated = 1, skipped = 0\<rparr>, None) \<and>
   applyMappings querySelector parse_string_array controls_page
     [JObj [(''selector'', JStr ''#agree''), (''kind'', JNum 5), (''value'', JStr ''yes'')]] =
     (initial_state controls_page,
      Some (TypeError ''(m?.kind || \"\").toLowerCase is not a function''))"
  by code_simp

text \<open>
  C6 (as amended). A mapping whose kind can be lower-cased (it is falsy or a string) and
  whose selector is absent or empty, or makes the engine throw, or finds no element, or
  finds an element of type \<open>file\<close>, is counted as skipped: the document and the writes
  stay as they are, no exception leaves the loop, and the loop goes on with the remaining
  mappings.
\<close>

theorem unresolved_mapping_is_skipped:
  assumes "kind_of m = Inr k"
    and "\<not> truthy (get_prop m ''selector'') \<or>
         (\<exists>e. resolve (dom st) (js_String (get_prop m ''selector'')) = Inl e) \<or>
         resolve (dom st) (js_String (get_prop m ''selector'')) = Inr None \<or>
         (\<exists>el. resolve (dom st) (js_String (get_prop m ''selector'')) = Inr (Some el) \<and>
               type_of (dom st ! el) = ''file'')"
  shows "apply_one resolve json_parse st m = Inr (st\<lparr>skipped := skipped st + 1\<rparr>) \<and>
         apply_loop resolve json_parse st (m # ms) =
           apply_loop resolve json_parse (st\<lparr>skipped := skipped st + 1\<rparr>) ms"
proof -
  from assms have "apply_one resolve json_parse st m = Inr (st\<lparr>skipped := skipped st + 1\<rparr>)"
    by (auto simp: apply_one_def resolve_element_def skip_def Let_def)
  then show ?thesis by simp
qed

theorem unresolved_mapping_is_skipped_witness:
  "apply_one querySelector parse_string_array (initial_state controls_page)
     (JObj [(''value'', JStr ''x'')]) =
     Inr ((initial_state controls_page)\<lparr>skipped := skipped (initial_state controls_page) + 1\<rparr>) \<and>
   apply_one querySelector parse_string_array (initial_state controls_page)
     (make_mapping ''[['' ''text'' ''x'') =
     Inr ((initial_state controls_page)\<lparr>skipped := skipped (initial_state controls_page) + 1\<rparr>) \<and>
   apply_one querySelector parse_string_array (initial_state controls_page)
     (make_mapping ''#missing'' ''text'' ''x'') =
     Inr ((initial_state controls_page)\<lparr>skipped := skipped (initial_state controls_page) + 1\<rparr>) \<and>
   apply_one querySelector parse_string_array (initial_state controls_page)
     (make_mapping ''#cv'' ''text'' ''x'') =
     Inr ((initial_state controls_page)\<lparr>skipped := skipped (initial_state controls_page) + 1\<rparr>)"
proof -
  let ?st = "initial_state controls_page"
  let ?absent = "JObj [(''value'', JStr ''x'')]"
  let ?throwing = "make_mapping ''[['' ''text'' ''x''"
  let ?missing = "make_mapping ''#missing'' ''text'' ''x''"
  let ?file = "make_mapping ''#cv'' ''text'' ''x''"
  have k: "kind_of ?absent = Inr []" "kind_of ?throwing = Inr ''text''"
    "kind_of ?missing = Inr ''text''" "kind_of ?file = Inr ''text''"
    by code_simp+
  have a: "\<not> truthy (get_prop ?absent ''selector'')" by code_simp
  have t: "querySelector (dom ?st) (js_String (get_prop ?throwing ''selector'')) =
             Inl (selector_error ''[['')" by code_simp
  have n: "querySelector (dom ?st) (js_String (get_prop ?missing ''selector'')) = Inr None"
    by code_simp
  have f: "querySelector (dom ?st) (js_String (get_prop ?file ''selector'')) = Inr (Some 2)"
    "type_of (dom ?st ! 2) = ''file''"
    by code_simp+
  from a have 1: "apply_one querySelector parse_string_array ?st ?absent =
      Inr (?st\<lparr>skipped := skipped ?st + 1\<rparr>)"
    using unresolved_mapping_is_skipped
      [where m = ?absent and resolve = querySelector and st = ?st and ms = "[]", OF k(1)]
    by blast
  from t have 2: "apply_one querySelector parse_string_array ?st ?throwing =
      Inr (?st\<lparr>skipped := skipped ?st + 1\<rparr>)"
    using unresolved_mapping_is_skipped
      [where m = ?throwing and resolve = querySelector and st = ?st and ms = "[]", OF k(2)]
    by blast
  from n have 3: "apply_one querySelector parse_string_array ?st ?missing =
      Inr (?st\<lparr>skipped := skipped ?st + 1\<rparr>)"
    using unresolved_mapping_is_skipped
      [where m = ?missing and resolve = querySelector and st = ?st and ms = "[]", OF k(3)]
    by blast
  from f have 4: "apply_one querySelector parse_string_array ?st ?file =
      Inr (?st\<lparr>skipped := skipped ?st + 1\<rparr>)"
    using unresolved_mapping_is_skipped
      [where m = ?file and resolve = querySelector and st = ?st and ms = "[]", OF k(4)]
    by blast
  from 1 2 3 4 show ?thesis by blast
qed

text \<open>
  The claim as stated fails for a mapping without a selector whose kind is the number 5:
  the kind is lower-cased before the selector is looked at, the \<open>TypeError\<close> leaves the
  loop, the mapping is not counted as skipped and the mapping after it is not applied.
\<close>

theorem numeric_kind_aborts_counterexample:
  "truthy (get_prop (JObj [(''kind'', JNum 5)]) ''selector'') = False \<and>
   applyMappings querySelector parse_string_array controls_page
     [JObj [(''kind'', JNum 5)], make_mapping ''#agree'' ''checkbox'' ''yes''] =
     (initial_state controls_page,
      Some (TypeError ''(m?.kind || \"\").toLowerCase is not a function'')) \<and>
   skipped (initial_state controls_page) = 0 \<and>
   fst (onMessage querySelector parse_string_array controls_page
          (JObj [(''type'', JStr ''APPLY_MAPPINGS''),
                 (''mappings'', JArr [JObj [(''kind'', JNum 5)],
                                      make_mapping ''#agree'' ''checkbox'' ''yes''])])) =
     Some (ErrorResponse ''(m?.kind || \"\").toLowerCase is not a function'')"
  by code_simp

text \<open>
  C7 (as amended). A mapping whose kind can be lower-cased (it is falsy or a string) and
  that resolves to an element of type \<open>checkbox\<close> sets \<open>checked\<close> to the truth of: the
  value (after the normalisation), as a trimmed lower-case string, is one of \<open>true\<close>,
  \<open>yes\<close>, \<open>1\<close>, \<open>checked\<close>, \<open>on\<close>. It counts as updated whatever that truth is.
\<close>

theorem checkbox_is_always_updated:
  assumes "kind_of m = Inr k"
    and "truthy (get_prop m ''selector'')"
    and "resolve (dom st) (js_String (get_prop m ''selector'')) = Inr (Some el)"
    and "el < length (dom st)"
    and "type_of (dom st ! el) = ''checkbox''"
  shows "\<exists>st'. apply_one resolve json_parse st m = Inr st' \<and>
           checked (dom st' ! el) =
             (token_of (normalize_value json_parse k (get_prop m ''value''))
                \<in> {''true'', ''yes'', ''1'', ''checked'', ''on''}) \<and>
           updated st' = updated st + 1 \<and> skipped st' = skipped st"
proof -
  let ?v = "normalize_value json_parse k (get_prop m ''value'')"
  from assms have "apply_one resolve json_parse st m = Inr (apply_checkbox st el ?v)"
    by (simp add: apply_one_def resolve_element_def Let_def)
  moreover from assms(4) have
    "checked (dom (apply_checkbox st el ?v) ! el) =
       (token_of ?v \<in> {''true'', ''yes'', ''1'', ''checked'', ''on''})"
    by (simp add: apply_checkbox_def set_checked_def truthy_tokens_def Let_def)
  moreover have "updated (apply_checkbox st el ?v) = updated st + 1"
    "skipped (apply_checkbox st el ?v) = skipped st"
    by (simp_all add: apply_checkbox_def Let_def)
  ultimately show ?thesis by blast
qed

theorem checkbox_is_always_updated_witness:
  "(\<exists>st'. apply_one querySelector parse_string_array (initial_state controls_page)
            (make_mapping ''#agree'' ''checkbox'' '' Yes '') = Inr st' \<and>
          checked (dom st' ! 3) = True \<and> updated st' = 1 \<and> skipped st' = 0) \<and>
   (\<exists>st'. apply_one querySelector parse_string_array (initial_state controls_page)
            (make_mapping ''#agree'' ''checkbox'' ''false'') = Inr st' \<and>
          checked (dom st' ! 3) = False \<and> updated st' = 1 \<and> skipped st' = 0)"
proof -
  let ?st = "initial_state controls_page"
  let ?yes = "make_mapping ''#agree'' ''checkbox'' '' Yes ''"
  let ?no = "make_mapping ''#agree'' ''checkbox'' ''false''"
  have k: "kind_of ?yes = Inr ''checkbox''" "kind_of ?no = Inr ''checkbox''" by code_simp+
  have s: "truthy (get_prop ?yes ''selector'')" "truthy (get_prop ?no ''selector'')"
    by code_simp+
  have r: "querySelector (dom ?st) (js_String (get_prop ?yes ''selector'')) = Inr (Some 3)"
    "querySelector (dom ?st) (js_String (get_prop ?no ''selector'')) = Inr (Some 3)"
    by code_simp+
  have l: "3 < length (dom ?st)" by code_simp
  have c: "type_of (dom ?st ! 3) = ''checkbox''" by code_simp
  have v: "(token_of (normalize_value parse_string_array ''checkbox'' (get_prop ?yes ''value''))
             \<in> {''true'', ''yes'', ''1'', ''checked'', ''on''}) = True"
    "(token_of (normalize_value parse_string_array ''checkbox'' (get_prop ?no ''value''))
             \<in> {''true'', ''yes'', ''1'', ''checked'', ''on''}) = False"
    by code_simp+
  have u: "updated ?st = 0" "skipped ?st = 0" by (simp_all add: initial_state_def)
  from checkbox_is_always_updated
         [where resolve = querySelector and st = ?st and json_parse = parse_string_array,
          OF k(1) s(1) r(1) l c]
       checkbox_is_always_updated
         [where resolve = querySelector and st = ?st and json_parse = parse_string_array,
          OF k(2) s(2) r(2) l c]
  show ?thesis unfolding v u by simp
qed

text \<open>
  The claim as stated fails for a checkbox mapping whose kind is the number 5: the
  \<open>TypeError\<close> of the lower-casing leaves the loop before the element is looked up; the
  checkbox stays unchecked and is counted neither as updated nor as skipped.
\<close>

theorem numeric_kind_checkbox_counterexample:
  "querySelector controls_page ''#agree'' = Inr (Some 3) \<and>
   type_of (controls_page ! 3) = ''checkbox'' \<and>
   apply_one querySelector parse_string_array (initial_state controls_page)
     (JObj [(''selector'', JStr ''#agree''), (''kind'', JNum 5), (''value'', JStr ''yes'')]) =
     Inl (TypeError ''(m?.kind || \"\").toLowerCase is not a function'') \<and>
   applyMappings querySelector parse_string_array controls_page
     [JObj [(''selector'', JStr ''#agree''), (''kind'', JNum 5), (''value'', JStr ''yes'')]] =
     (initial_state controls_page,
      Some (TypeError ''(m?.kind || \"\").toLowerCase is not a function'')) \<and>
   checked (dom (initial_state controls_page) ! 3) = False \<and>
   updated (initial_state controls_page) = 0"
  by code_simp

lemma map_update_same:
  "f y = f (xs ! n) \<Longrightarrow> map f (xs[n := y]) = map f xs"
proof (cases "n < length xs")
  case True
  assume "f y = f (xs ! n)"
  with True show ?thesis by (simp add: map_update list_update_same_conv)
next
  case False
  then show ?thesis by (simp add: list_update_beyond)
qed


lemma set_selected_static: "map static_part (set_selected d n b) = map static_part d"
  unfolding set_selected_def by (rule map_update_same) (simp add: static_part_def)


lemma deselect_all_static:
  "map static_part (dom (deselect_all st opts)) = map static_part (dom st)"
  by (induction opts arbitrary: st) (simp_all add: set_selected_static)
















section \<open>The select branch\<close>

lemma static_part_nth:
  assumes "map static_part d' = map static_part d" and "n < length d"
  shows "static_part (d' ! n) = static_part (d ! n)"
proof -
  from assms(1) have "length d' = length d" by (metis length_map)
  with assms show ?thesis by (metis nth_map)
qed

lemma options_of_in_range: "\<forall>opt\<in>set (options_of d n). opt < length d"
  by (simp add: options_of_def)

lemma resolveOne_in_opts: "resolveOne d opts w = Some opt \<Longrightarrow> opt \<in> set opts"
  by (auto simp: resolveOne_def find_Some_iff split: option.splits)

text \<open>Which option a token resolves to depends on the attributes and the text only.\<close>

lemma resolveOne_static:
  assumes "map static_part d' = map static_part d" and "\<forall>opt\<in>set opts. opt < length d"
  shows "resolveOne d' opts w = resolveOne d opts w"
proof -
  have same: "option_value (d' ! opt) = option_value (d ! opt) \<and>
              innerText (d' ! opt) = innerText (d ! opt)" if "opt \<in> set opts" for opt
  proof -
    from that assms(2) have "opt < length d" by blast
    from static_part_nth [OF assms(1) this] show ?thesis
      by (auto simp: static_part_def option_value_def getAttribute_def split: option.splits)
  qed
  have v: "find (\<lambda>opt. toLowerCase (trim (option_value (d' ! opt))) = w) opts =
           find (\<lambda>opt. toLowerCase (trim (option_value (d ! opt))) = w) opts"
    by (rule find_cong) (simp_all add: same)
  have t: "find (\<lambda>opt. toLowerCase (trim (innerText (d' ! opt))) = w) opts =
           find (\<lambda>opt. toLowerCase (trim (innerText (d ! opt))) = w) opts"
    by (rule find_cong) (simp_all add: same)
  show ?thesis unfolding resolveOne_def v t by (rule refl)
qed

lemma deselect_all_dom:
  "length (dom (deselect_all st opts)) = length (dom st) \<and>
   (\<forall>i<length (dom st).
      selected (dom (deselect_all st opts) ! i) = (selected (dom st ! i) \<and> i \<notin> set opts))"
proof (induction opts arbitrary: st)
  case Nil
  then show ?case by simp
next
  case (Cons opt opts)
  let ?st1 = "st\<lparr>dom := set_selected (dom st) opt False,
                  writes := writes st @ [SetSelected opt False]\<rparr>"
  have len: "length (dom ?st1) = length (dom st)" by (simp add: set_selected_def)
  have sel: "selected (dom ?st1 ! i) = (selected (dom st ! i) \<and> i \<noteq> opt)"
    if "i < length (dom st)" for i
    using that
    by (cases "opt < length (dom st)")
       (auto simp: set_selected_def nth_list_update list_update_beyond)
  from Cons.IH [of ?st1] len sel show ?case by auto
qed

lemma select_wanted_dom:
  assumes "\<forall>opt\<in>set opts. opt < length (dom st)"
    and "select_wanted opts (st, a) ws = (st', a')"
  shows "length (dom st') = length (dom st) \<and>
         (\<forall>i<length (dom st).
            selected (dom st' ! i) =
              (selected (dom st ! i) \<or> (\<exists>w\<in>set ws. resolveOne (dom st) opts w = Some i))) \<and>
         a' = (a \<or> (\<exists>w\<in>set ws. resolveOne (dom st) opts w \<noteq> None))"
  using assms
proof (induction ws arbitrary: st a)
  case Nil
  then show ?case by simp
next
  case (Cons w ws)
  show ?case
  proof (cases "resolveOne (dom st) opts w")
    case None
    with Cons.prems have "select_wanted opts (st, a) ws = (st', a')" by simp
    from Cons.IH [OF Cons.prems(1) this] None show ?thesis by auto
  next
    case (Some opt)
    let ?d1 = "set_selected (dom st) opt True"
    let ?st1 = "st\<lparr>dom := ?d1, writes := writes st @ [SetSelected opt True]\<rparr>"
    from Some Cons.prems have sw: "select_wanted opts (?st1, True) ws = (st', a')" by simp
    have d1: "dom ?st1 = ?d1" by simp
    have len: "length ?d1 = length (dom st)" by (simp add: set_selected_def)
    have stat: "map static_part ?d1 = map static_part (dom st)"
      by (simp add: set_selected_static)
    have r: "resolveOne ?d1 opts x = resolveOne (dom st) opts x" for x
      using resolveOne_static [OF stat Cons.prems(1)] .
    from Cons.prems(1) len have rng: "\<forall>opt\<in>set opts. opt < length (dom ?st1)" by simp
    from Some have "opt \<in> set opts" by (rule resolveOne_in_opts)
    with Cons.prems(1) have lt: "opt < length (dom st)" by blast
    have sel: "selected (?d1 ! i) = (selected (dom st ! i) \<or> i = opt)"
      if "i < length (dom st)" for i
      using that lt by (auto simp: set_selected_def nth_list_update)
    from Cons.IH [OF rng sw] have ih0:
      "length (dom st') = length ?d1 \<and>
       (\<forall>i<length ?d1.
          selected (dom st' ! i) =
            (selected (?d1 ! i) \<or> (\<exists>w\<in>set ws. resolveOne ?d1 opts w = Some i))) \<and>
       a' = (True \<or> (\<exists>w\<in>set ws. resolveOne ?d1 opts w \<noteq> None))"
      unfolding d1 .
    then have ih:
      "length (dom st') = length (dom st)"
      "\<forall>i<length (dom st).
         selected (dom st' ! i) =
           (selected (?d1 ! i) \<or> (\<exists>w\<in>set ws. resolveOne (dom st) opts w = Some i))"
      "a' = True"
      unfolding r len by simp_all
    from ih(2) sel Some have
      "\<forall>i<length (dom st).
         selected (dom st' ! i) =
           (selected (dom st ! i) \<or> (\<exists>x\<in>set (w # ws). resolveOne (dom st) opts x = Some i))"
      by auto
    with ih(1) ih(3) Some show ?thesis by auto
  qed
qed

text \<open>
  The select branch on a control that allows several selections, with at least one
  wanted token: afterwards an option is selected exactly when some token resolves to it,
  and the mapping is updated when some token resolves and skipped otherwise.
\<close>

lemma apply_select_multiple:
  assumes "prop_multiple (dom st ! el)" and "wanted_tokens v \<noteq> []"
  shows "(\<forall>opt\<in>set (options_of (dom st) el).
            selected (dom (apply_select st el v) ! opt) =
              (\<exists>w\<in>set (wanted_tokens v).
                 resolveOne (dom st) (options_of (dom st) el) w = Some opt)) \<and>
         (if \<exists>w\<in>set (wanted_tokens v). resolveOne (dom st) (options_of (dom st) el) w \<noteq> None
          then updated (apply_select st el v) = updated st + 1 \<and>
               skipped (apply_select st el v) = skipped st
          else updated (apply_select st el v) = updated st \<and>
               skipped (apply_select st el v) = skipped st + 1)"
proof -
  let ?opts = "options_of (dom st) el"
  let ?st0 = "deselect_all st ?opts"
  obtain st' a' where sw: "select_wanted ?opts (?st0, False) (wanted_tokens v) = (st', a')"
    by (cases "select_wanted ?opts (?st0, False) (wanted_tokens v)")
  from deselect_all_dom [of st ?opts] have
    len0: "length (dom ?st0) = length (dom st)" and
    sel0: "\<forall>i<length (dom st). selected (dom ?st0 ! i) = (selected (dom st ! i) \<and> i \<notin> set ?opts)"
    by simp_all
  have rng: "\<forall>opt\<in>set ?opts. opt < length (dom st)" by (rule options_of_in_range)
  with len0 have rng0: "\<forall>opt\<in>set ?opts. opt < length (dom ?st0)" by simp
  have r: "resolveOne (dom ?st0) ?opts x = resolveOne (dom st) ?opts x" for x
    using resolveOne_static [OF deselect_all_static rng] .
  from select_wanted_dom [OF rng0 sw] have
    sel': "\<forall>i<length (dom st).
             selected (dom st' ! i) =
               (selected (dom ?st0 ! i) \<or>
                (\<exists>w\<in>set (wanted_tokens v). resolveOne (dom st) ?opts w = Some i))" and
    any: "a' = (\<exists>w\<in>set (wanted_tokens v). resolveOne (dom st) ?opts w \<noteq> None)"
    by (simp_all add: r len0)
  from sel' sel0 rng have sel:
    "\<forall>opt\<in>set ?opts.
       selected (dom st' ! opt) =
         (\<exists>w\<in>set (wanted_tokens v). resolveOne (dom st) ?opts w = Some opt)"
    by auto
  from select_wanted_counts [OF sw] deselect_all_counts [of st ?opts]
  have cnt: "updated st' = updated st" "skipped st' = skipped st" by simp_all
  have res: "apply_select st el v =
      (if \<not> a' then skip st'
       else st'\<lparr>writes := writes st' @ dispatch_events el, updated := updated st' + 1\<rparr>)"
    using assms sw by (simp add: apply_select_def Let_def)
  show ?thesis
  proof (cases a')
    case True
    with any have ex:
      "\<exists>w\<in>set (wanted_tokens v). resolveOne (dom st) ?opts w \<noteq> None" by simp
    from res True have
      "apply_select st el v =
         st'\<lparr>writes := writes st' @ dispatch_events el, updated := updated st' + 1\<rparr>"
      by simp
    with sel cnt ex show ?thesis by simp
  next
    case False
    with any have nex:
      "\<not> (\<exists>w\<in>set (wanted_tokens v). resolveOne (dom st) ?opts w \<noteq> None)" by simp
    from res False have "apply_select st el v = skip st'" by simp
    with sel cnt nex show ?thesis by (simp add: skip_def)
  qed
qed

text \<open>
  C3 (as amended). A mapping of kind \<open>multi_select\<close> whose string value trims to the shape
  of a JSON array and parses to an array has that array as its value; when the parse
  fails the string is kept. Applied to a select that allows several selections (and whose
  type attribute is none of \<open>file\<close>, \<open>checkbox\<close>, \<open>radio\<close>), with at least one non-empty
  token: afterwards an option is selected exactly when some token resolves to it (by its
  value first, else by its text, trimmed and without regard to case); the mapping is
  updated when some token resolves and skipped when none does.
\<close>

theorem multi_select_selects_the_wanted_options:
  assumes "kind_of m = Inr ''multi_select''"
    and "get_prop m ''value'' = JStr v"
    and "startsWith (trim v) ''['' \<and> endsWith (trim v) '']''"
    and "truthy (get_prop m ''selector'')"
    and "resolve (dom st) (js_String (get_prop m ''selector'')) = Inr (Some el)"
    and "tag_of (dom st ! el) = ''select''"
    and "type_of (dom st ! el) \<notin> {''file'', ''checkbox'', ''radio''}"
    and "prop_multiple (dom st ! el)"
  shows "(json_parse (trim v) = None \<longrightarrow>
            normalize_value json_parse ''multi_select'' (JStr v) = JStr v) \<and>
         (\<forall>toks. json_parse (trim v) = Some (JArr toks) \<and> wanted_tokens (JArr toks) \<noteq> [] \<longrightarrow>
            (\<exists>st'. apply_one resolve json_parse st m = Inr st' \<and>
               (\<forall>opt\<in>set (options_of (dom st) el).
                  selected (dom st' ! opt) =
                    (\<exists>w\<in>set (wanted_tokens (JArr toks)).
                       resolveOne (dom st) (options_of (dom st) el) w = Some opt)) \<and>
               (if \<exists>w\<in>set (wanted_tokens (JArr toks)).
                     resolveOne (dom st) (options_of (dom st) el) w \<noteq> None
                then updated st' = updated st + 1 \<and> skipped st' = skipped st
                else updated st' = updated st \<and> skipped st' = skipped st + 1)))"
proof (intro conjI allI impI)
  assume "json_parse (trim v) = None"
  with assms(3) show "normalize_value json_parse ''multi_select'' (JStr v) = JStr v"
    by (simp add: normalize_value_def Let_def)
next
  fix toks
  assume p: "json_parse (trim v) = Some (JArr toks) \<and> wanted_tokens (JArr toks) \<noteq> []"
  with assms(3) have n: "normalize_value json_parse ''multi_select'' (JStr v) = JArr toks"
    by (simp add: normalize_value_def Let_def)
  from assms n have "apply_one resolve json_parse st m = Inr (apply_select st el (JArr toks))"
    by (simp add: apply_one_def resolve_element_def Let_def)
  with apply_select_multiple [OF assms(8), of "JArr toks"] p
  show "\<exists>st'. apply_one resolve json_parse st m = Inr st' \<and>
               (\<forall>opt\<in>set (options_of (dom st) el).
                  selected (dom st' ! opt) =
                    (\<exists>w\<in>set (wanted_tokens (JArr toks)).
                       resolveOne (dom st) (options_of (dom st) el) w = Some opt)) \<and>
               (if \<exists>w\<in>set (wanted_tokens (JArr toks)).
                     resolveOne (dom st) (options_of (dom st) el) w \<noteq> None
                then updated st' = updated st + 1 \<and> skipped st' = skipped st
                else updated st' = updated st \<and> skipped st' = skipped st + 1)"
    by simp
qed

theorem multi_select_selects_the_wanted_options_witness:
  "\<exists>st'. apply_one querySelector parse_string_array (initial_state controls_page)
            (make_mapping ''#colors'' ''multi_select'' ''[\"Red\",\"Blue\"]'') = Inr st' \<and>
         selected (dom st' ! 5) \<and> selected (dom st' ! 6) \<and> \<not> selected (dom st' ! 7) \<and>
         updated st' = 1 \<and> skipped st' = 0"
proof -
  let ?st = "initial_state controls_page"
  let ?m = "make_mapping ''#colors'' ''multi_select'' ''[\"Red\",\"Blue\"]''"
  let ?toks = "[JStr ''Red'', JStr ''Blue'']"
  have k: "kind_of ?m = Inr ''multi_select''" by code_simp
  have v: "get_prop ?m ''value'' = JStr ''[\"Red\",\"Blue\"]''" by code_simp
  have sh: "startsWith (trim ''[\"Red\",\"Blue\"]'') ''['' \<and> endsWith (trim ''[\"Red\",\"Blue\"]'') '']''"
    by code_simp
  have s: "truthy (get_prop ?m ''selector'')" by code_simp
  have r: "querySelector (dom ?st) (js_String (get_prop ?m ''selector'')) = Inr (Some 4)"
    by code_simp
  have tg: "tag_of (dom ?st ! 4) = ''select''" by code_simp
  have ty: "type_of (dom ?st ! 4) \<notin> {''file'', ''checkbox'', ''radio''}" by code_simp
  have mu: "prop_multiple (dom ?st ! 4)" by code_simp
  have p: "parse_string_array (trim ''[\"Red\",\"Blue\"]'') = Some (JArr ?toks)" by code_simp
  have w: "wanted_tokens (JArr ?toks) \<noteq> []" by code_simp
  have o: "set (options_of (dom ?st) 4) = {5, 6, 7}" by code_simp
  have m5: "(\<exists>w\<in>set (wanted_tokens (JArr ?toks)).
              resolveOne (dom ?st) (options_of (dom ?st) 4) w = Some 5) = True" by code_simp
  have m6: "(\<exists>w\<in>set (wanted_tokens (JArr ?toks)).
              resolveOne (dom ?st) (options_of (dom ?st) 4) w = Some 6) = True" by code_simp
  have m7: "(\<exists>w\<in>set (wanted_tokens (JArr ?toks)).
              resolveOne (dom ?st) (options_of (dom ?st) 4) w = Some 7) = False" by code_simp
  have any: "(\<exists>w\<in>set (wanted_tokens (JArr ?toks)).
              resolveOne (dom ?st) (options_of (dom ?st) 4) w \<noteq> None) = True" by code_simp
  have u: "updated ?st = 0" "skipped ?st = 0" by (simp_all add: initial_state_def)
  from multi_select_selects_the_wanted_options
         [where resolve = querySelector and st = ?st and json_parse = parse_string_array,
          OF k v sh s r tg ty mu] p w
  obtain st' where
    a: "apply_one querySelector parse_string_array ?st ?m = Inr st'" and
    sel: "\<forall>opt\<in>set (options_of (dom ?st) 4).
             selected (dom st' ! opt) =
               (\<exists>w\<in>set (wanted_tokens (JArr ?toks)).
                  resolveOne (dom ?st) (options_of (dom ?st) 4) w = Some opt)" and
    cnt: "if \<exists>w\<in>set (wanted_tokens (JArr ?toks)).
               resolveOne (dom ?st) (options_of (dom ?st) 4) w \<noteq> None
          then updated st' = updated ?st + 1 \<and> skipped st' = skipped ?st
          else updated st' = updated ?st \<and> skipped st' = skipped ?st + 1"
    by blast
  from sel o have "selected (dom st' ! 5) \<and> selected (dom st' ! 6) \<and> \<not> selected (dom st' ! 7)"
    unfolding o by (simp add: m5 m6 m7)
  moreover from cnt have "updated st' = 1 \<and> skipped st' = 0" unfolding any u by simp
  ultimately show ?thesis using a by blast
qed

text \<open>
  The claim as stated fails for the value \<open>[]\<close>: no token is left, the mapping is skipped
  before any option is touched, and Green stays selected.
\<close>

theorem multi_select_empty_array_counterexample:
  "apply_one querySelector parse_string_array (initial_state controls_page)
     (make_mapping ''#colors'' ''multi_select'' ''[]'') =
     Inr ((initial_state controls_page)\<lparr>skipped := 1\<rparr>) \<and>
   7 \<in> set (options_of controls_page 4) \<and>
   selected (dom ((initial_state controls_page)\<lparr>skipped := 1\<rparr>) ! 7)"
  by code_simp

section \<open>Selectors that the script builds\<close>

text \<open>The parser reads back what \<open>CSS.escape\<close> writes, when no character is NUL.\<close>

lemma of_char_char_of_small: "k < 256 \<Longrightarrow> (of_char (char_of (k::nat)) :: nat) = k"
  by (simp add: of_char_of)

lemma hex_digit_value_hex_char: "d < 16 \<Longrightarrow> hex_digit_value (hex_char d) = Some d"
  by (auto simp: hex_digit_value_def hex_char_def of_char_char_of_small Let_def)

lemma is_hex_hex_char: "d < 16 \<Longrightarrow> is_hex (hex_char d)"
  by (simp add: is_hex_def hex_digit_value_hex_char)

lemma hex_char_not_newline: "d < 16 \<Longrightarrow> hex_char d \<noteq> CHR 0x0A"
proof
  assume "d < 16" and "hex_char d = CHR 0x0A"
  then have "(of_char (hex_char d) :: nat) = 10" by simp
  with \<open>d < 16\<close> show False
    by (auto simp: hex_char_def of_char_char_of_small split: if_splits)
qed

lemma space_not_hex: "\<not> is_hex CHR '' ''"
  by (simp add: is_hex_def hex_digit_value_def)

lemma consume_escape_to_hex:
  assumes "0 < n" "n < 128"
  shows "consume_escape (to_hex n @ CHR '' '' # r) = Some (char_of n, r)"
proof (cases "n < 16")
  case True
  then have h: "to_hex n = [hex_char n]" by (simp add: to_hex_def)
  from True have v: "hex_value [hex_char n] = n"
    by (simp add: hex_value_def hex_digit_value_hex_char)
  from True assms show ?thesis
    by (simp add: h consume_escape_def is_hex_hex_char hex_char_not_newline space_not_hex v
                  is_css_ws_def Let_def)
next
  case False
  with assms have d: "n div 16 < 16" "n mod 16 < 16" by auto
  from False have h: "to_hex n = [hex_char (n div 16), hex_char (n mod 16)]"
    by (simp add: to_hex_def)
  from d have v: "hex_value [hex_char (n div 16), hex_char (n mod 16)] = n"
    by (simp add: hex_value_def hex_digit_value_hex_char)
  from d assms show ?thesis
    by (simp add: h consume_escape_def is_hex_hex_char hex_char_not_newline space_not_hex v
                  is_css_ws_def Let_def)
qed


lemma backslash_not_name_char: "\<not> is_name_char CHR 0x5C"
  by (simp add: is_name_char_def is_name_start_def is_alpha_def is_digit_def is_non_ascii_def)

lemma parse_name_escape_code_point:
  assumes "0 < (of_char c :: nat)" "(of_char c :: nat) < 128"
  shows "parse_name (escape_code_point c @ r) =
           (case parse_name r of None \<Rightarrow> None | Some (n, r') \<Rightarrow> Some (c # n, r'))"
  using consume_escape_to_hex [OF assms, of r]
  by (simp add: escape_code_point_def backslash_not_name_char)

lemma is_hex_alnum: "is_hex c \<Longrightarrow> is_digit c \<or> is_alpha c"
  by (auto simp: is_hex_def hex_digit_value_def is_digit_def is_alpha_def Let_def split: if_splits)

lemma of_char_eq_0: "((of_char c :: nat) = 0) = (c = CHR 0x00)"
proof
  assume "(of_char c :: nat) = 0"
  then have "c = char_of (0 :: nat)" by (metis char_of_char)
  moreover have "char_of (0 :: nat) = CHR 0x00" by code_simp
  ultimately show "c = CHR 0x00" by simp
next
  assume "c = CHR 0x00"
  then show "(of_char c :: nat) = 0" by simp
qed

lemma of_char_eq_10: "c = CHR 0x0A \<Longrightarrow> is_control c"
  by (simp add: is_control_def)

lemma parse_name_escape_unit:
  assumes "c \<noteq> CHR 0x00"
  shows "parse_name (escape_unit i whole c @ r) =
           (case parse_name r of None \<Rightarrow> None | Some (n, r') \<Rightarrow> Some (c # n, r'))"
proof -
  from assms have pos: "0 < (of_char c :: nat)" using of_char_eq_0 [of c] by simp
  have ctl: "parse_name (escape_code_point c @ r) =
           (case parse_name r of None \<Rightarrow> None | Some (n, r') \<Rightarrow> Some (c # n, r'))"
    if "is_control c \<or> is_digit c"
  proof -
    from that have "(of_char c :: nat) < 128"
      by (auto simp: is_control_def is_digit_def Let_def)
    with pos show ?thesis by (rule parse_name_escape_code_point)
  qed
  have plain: "parse_name ([c] @ r) =
           (case parse_name r of None \<Rightarrow> None | Some (n, r') \<Rightarrow> Some (c # n, r'))"
    if "is_non_ascii c \<or> c = CHR ''-'' \<or> c = CHR ''_'' \<or> is_digit c \<or> is_alpha c"
  proof -
    from that have "is_name_char c" by (auto simp: is_name_char_def is_name_start_def)
    then show ?thesis by simp
  qed
  have esc: "parse_name ([CHR 0x5C, c] @ r) =
           (case parse_name r of None \<Rightarrow> None | Some (n, r') \<Rightarrow> Some (c # n, r'))"
    if "\<not> is_control c" "\<not> is_digit c" "\<not> is_alpha c"
  proof -
    from that have "c \<noteq> CHR 0x0A" "\<not> is_hex c" using of_char_eq_10 is_hex_alnum by blast+
    then have "consume_escape (c # r) = Some (c, r)" by (simp add: consume_escape_def)
    then show ?thesis by (simp add: backslash_not_name_char)
  qed
  have dash: "\<not> is_control CHR ''-''" "\<not> is_digit CHR ''-''" "\<not> is_alpha CHR ''-''"
    by (simp_all add: is_control_def is_digit_def is_alpha_def)
  show ?thesis
    unfolding escape_unit_def using assms ctl plain esc dash
    by (auto simp del: append.simps parse_name.simps)
qed

lemma parse_name_escape_from:
  assumes "CHR 0x00 \<notin> set s"
  shows "parse_name (escape_from i whole s @ r) =
           (case parse_name r of None \<Rightarrow> None | Some (n, r') \<Rightarrow> Some (s @ n, r'))"
  using assms
proof (induction s arbitrary: i)
  case Nil
  then show ?case by (simp split: option.splits)
next
  case (Cons c s)
  then have c: "c \<noteq> CHR 0x00" and s: "CHR 0x00 \<notin> set s" by auto
  have "parse_name (escape_from i whole (c # s) @ r) =
        parse_name (escape_unit i whole c @ (escape_from (Suc i) whole s @ r))"
    by simp
  also have "\<dots> = (case parse_name (escape_from (Suc i) whole s @ r) of
                     None \<Rightarrow> None | Some (n, r') \<Rightarrow> Some (c # n, r'))"
    by (rule parse_name_escape_unit [OF c])
  also have "\<dots> = (case parse_name r of None \<Rightarrow> None | Some (n, r') \<Rightarrow> Some ((c # s) @ n, r'))"
    by (simp add: Cons.IH [OF s] split: option.splits)
  finally show ?case .
qed

lemma parse_name_CSS_escape:
  "CHR 0x00 \<notin> set s \<Longrightarrow> parse_name (CSS_escape s) = Some (s, [])"
  using parse_name_escape_from [of s 0 s "[]"] by (simp add: CSS_escape_def)


text \<open>What the serialisation of one character starts with.\<close>

lemma escape_unit_head:
  "\<exists>h t. escape_unit i whole c = h # t \<and>
         (h = CHR 0x5C \<or> (h = c \<and> (is_non_ascii c \<or> c = CHR ''-'' \<or> c = CHR ''_'' \<or> is_alpha c \<or>
                                       (is_digit c \<and> i \<noteq> 0))) \<or>
          (c = CHR 0x00 \<and> h = CHR 0xEF))"
  by (auto simp: escape_unit_def escape_code_point_def)

lemma non_ascii_EF: "is_non_ascii CHR 0xEF"
  by (simp add: is_non_ascii_def)

lemma starts_ident_CSS_escape:
  assumes "s \<noteq> []"
  shows "starts_ident (CSS_escape s)"
proof -
  from assms obtain c cs where s: "s = c # cs" by (cases s) auto
  obtain h t where h: "escape_unit 0 s c = h # t" and
    hc: "h = CHR 0x5C \<or> (h = c \<and> (is_non_ascii c \<or> c = CHR ''-'' \<or> c = CHR ''_'' \<or> is_alpha c)) \<or>
         (c = CHR 0x00 \<and> h = CHR 0xEF)"
    using escape_unit_head [of 0 s c] by auto
  have e: "CSS_escape s = h # (t @ escape_from 1 s cs)"
    by (simp add: CSS_escape_def s h [unfolded s])
  show ?thesis
  proof (cases "h = CHR ''-''")
    case False
    with hc non_ascii_EF show ?thesis
      by (auto simp: e starts_ident_def is_name_start_def)
  next
    case True
    with hc have c: "c = CHR ''-''" by (auto simp: is_non_ascii_def)
    show ?thesis
    proof (cases cs)
      case Nil
      with s c have "escape_unit 0 s c = [CHR 0x5C, CHR ''-'']"
        by (simp add: escape_unit_def is_control_def is_digit_def)
      with h True show ?thesis by simp
    next
      case (Cons d ds)
      with s c have t: "t = []"
        using h by (simp add: escape_unit_def is_control_def is_digit_def)
      obtain h' t' where h': "escape_unit 1 s d = h' # t'" and
        hd: "h' = CHR 0x5C \<or> (h' = d \<and> (is_non_ascii d \<or> d = CHR ''-'' \<or> d = CHR ''_'' \<or> is_alpha d \<or>
                                       is_digit d)) \<or> (d = CHR 0x00 \<and> h' = CHR 0xEF)"
        using escape_unit_head [of 1 s d] by auto
      have nd: "\<not> (h' = d \<and> is_digit d)"
      proof
        assume a: "h' = d \<and> is_digit d"
        then have "\<not> is_control d" "d \<noteq> CHR 0x00"
          by (auto simp: is_control_def is_digit_def Let_def)
        with a s c have "escape_unit 1 s d = escape_code_point d"
          by (simp add: escape_unit_def)
        with h' a show False by (auto simp: escape_code_point_def is_digit_def)
      qed
      have e': "CSS_escape s = CHR ''-'' # h' # (t' @ escape_from 2 s ds)"
        using e True t Cons h' by (simp add: numeral_2_eq_2)
      from hd nd non_ascii_EF show ?thesis
        by (auto simp: e' starts_ident_def is_name_start_def)
    qed
  qed
qed

lemma tokenize_hash_CSS_escape:
  assumes "s \<noteq> []" and "CHR 0x00 \<notin> set s"
  shows "tokenize (CHR ''#'' # CSS_escape s) = Some [THash s True]"
proof -
  from starts_ident_CSS_escape [OF assms(1)] have si: "starts_ident (CSS_escape s)" .
  then obtain h t where e: "CSS_escape s = h # t" by (cases "CSS_escape s") (auto simp: starts_ident_def)
  from si e have hd: "is_name_char h \<or> h = CHR 0x5C" using starts_ident_head by simp
  have ws: "\<not> is_css_ws CHR ''#''" by (simp add: is_css_ws_def)
  from parse_name_CSS_escape [OF assms(2)] have p: "parse_name (h # t) = Some (s, [])"
    by (simp add: e)
  from si e have si': "starts_ident (h # t)" by simp
  show ?thesis
    unfolding e
    by (subst tokenize.simps) (simp add: ws hd p si' tokenize.simps(1) del: parse_name.simps)
qed

lemma parse_id_selector:
  assumes "s \<noteq> []" and "CHR 0x00 \<notin> set s"
  shows "parse_selector_list (''#'' @ CSS_escape s) = Some [([IdSel s], [])]"
proof -
  have nil: "parse_simples [] = Some []" by (subst parse_simples.simps) simp
  have "parse_simples [THash s True] = Some [IdSel s]"
    by (subst parse_simples.simps) (simp add: parse_simple_def nil)
  then have "parse_complex [THash s True] = Some ([IdSel s], [])"
    by (simp add: parse_complex_def strip_ws_def norm_comb_def parse_compound_def)
  with tokenize_hash_CSS_escape [OF assms] show ?thesis
    by (simp add: parse_selector_list_def)
qed

lemma filter_head_unique:
  assumes "el < n" "P el" "\<forall>j<n. P j \<longrightarrow> j = el"
  shows "\<exists>rest. filter P [0..<n] = el # rest"
proof (cases "filter P [0..<n]")
  case Nil
  from assms(1,2) have "el \<in> set (filter P [0..<n])" by simp
  with Nil show ?thesis by simp
next
  case (Cons x rest)
  then have "x \<in> set (filter P [0..<n])" by simp
  then have "x < n" "P x" by simp_all
  with assms(3) have "x = el" by blast
  with Cons show ?thesis by simp
qed

lemma querySelector_id:
  assumes "s \<noteq> []" and "CHR 0x00 \<notin> set s"
    and "el < length doc" and "getAttribute (doc ! el) ''id'' = Some s"
    and "\<forall>j<length doc. getAttribute (doc ! j) ''id'' = Some s \<longrightarrow> j = el"
  shows "querySelector doc (''#'' @ CSS_escape s) = Inr (Some el)"
proof -
  have m: "matches_list doc [([IdSel s], [])] = (\<lambda>j. getAttribute (doc ! j) ''id'' = Some s)"
    by (rule ext) (simp add: matches_list_def matches_complex_def matches_compound_def)
  from filter_head_unique [of el "length doc" "\<lambda>j. getAttribute (doc ! j) ''id'' = Some s"]
       assms(3-5)
  obtain rest where
    "filter (\<lambda>j. getAttribute (doc ! j) ''id'' = Some s) [0..<length doc] = el # rest"
    by blast
  with parse_id_selector [OF assms(1,2)] m show ?thesis
    by (simp add: querySelector_def querySelectorAll_def)
qed

text \<open>
  C5 (as amended). For every element of the document whose \<open>id\<close> attribute is not empty,
  \<open>buildSelector\<close> returns \<open>#\<close> followed by the escaped id; when no character of the id
  is NUL and no other element has that id, \<open>querySelector\<close> on the selector returns the
  element.
\<close>

theorem id_selector_resolves_back:
  assumes "el < length doc"
    and "getAttribute (doc ! el) ''id'' = Some v"
    and "v \<noteq> []"
  shows "buildSelector doc el = Inr (''#'' @ CSS_escape v) \<and>
         (CHR 0x00 \<notin> set v \<and>
          (\<forall>j<length doc. getAttribute (doc ! j) ''id'' = Some v \<longrightarrow> j = el) \<longrightarrow>
            querySelector doc (''#'' @ CSS_escape v) = Inr (Some el))"
proof
  from assms(2,3) show "buildSelector doc el = Inr (''#'' @ CSS_escape v)"
    by (simp add: buildSelector_def attr_or_empty_def Let_def)
next
  show "CHR 0x00 \<notin> set v \<and>
          (\<forall>j<length doc. getAttribute (doc ! j) ''id'' = Some v \<longrightarrow> j = el) \<longrightarrow>
            querySelector doc (''#'' @ CSS_escape v) = Inr (Some el)"
    using querySelector_id [OF assms(3) _ assms(1,2)] by blast
qed

theorem id_selector_resolves_back_witness:
  "buildSelector odd_id_page 2 = Inr (''#'' @ CSS_escape ''1a b'') \<and>
   CSS_escape ''1a b'' = [CHR 0x5C, CHR ''3'', CHR ''1'', CHR '' '', CHR ''a'', CHR 0x5C, CHR '' '', CHR ''b''] \<and>
   querySelector odd_id_page (''#'' @ CSS_escape ''1a b'') = Inr (Some 2)"
proof -
  have l: "2 < length odd_id_page" by code_simp
  have a: "getAttribute (odd_id_page ! 2) ''id'' = Some ''1a b''" by code_simp
  have n: "''1a b'' \<noteq> []" by simp
  have z: "CHR 0x00 \<notin> set ''1a b''" by simp
  have e: "CSS_escape ''1a b'' =
      [CHR 0x5C, CHR ''3'', CHR ''1'', CHR '' '', CHR ''a'', CHR 0x5C, CHR '' '', CHR ''b'']"
    by code_simp
  have "list_all (\<lambda>j. getAttribute (odd_id_page ! j) ''id'' = Some ''1a b'' \<longrightarrow> j = 2)
          [0..<length odd_id_page]"
    by code_simp
  then have u: "\<forall>j<length odd_id_page.
                 getAttribute (odd_id_page ! j) ''id'' = Some ''1a b'' \<longrightarrow> j = 2"
    by (simp add: list_all_iff)
  from id_selector_resolves_back [OF l a n] z u e show ?thesis by blast
qed

text \<open>
  The claim as stated fails for an element whose \<open>id\<close> attribute is empty (the name rule
  answers), and the selector of an id that holds a NUL character finds nothing.
\<close>

theorem id_selector_counterexample:
  "getAttribute (empty_id_page ! 2) ''id'' = Some [] \<and>
   buildSelector empty_id_page 2 = Inr ''input[name=\"n\"]'' \<and>
   getAttribute (nul_id_page ! 2) ''id'' = Some [CHR 0x00] \<and>
   buildSelector nul_id_page 2 = Inr (''#'' @ CSS_escape [CHR 0x00]) \<and>
   querySelector nul_id_page (''#'' @ CSS_escape [CHR 0x00]) = Inr None"
  by code_simp

text \<open>
  C4. On the page of the scenario the two radio buttons of the group \<open>sex\<close> get the
  selectors \<open>input[name="sex"]:nth-of-type(1)\<close> and \<open>input[name="sex"]:nth-of-type(2)\<close>,
  distinct and of the form the claim gives. Neither resolves to its element:
  \<open>:nth-of-type\<close> counts the input siblings, of which the text input is the first, so the
  first selector finds nothing and the second finds the first radio button.
\<close>

theorem radio_selectors_do_not_resolve_back:
  "buildSelector scenario_page 3 = Inr ''input[name=\"sex\"]:nth-of-type(1)'' \<and>
   buildSelector scenario_page 4 = Inr ''input[name=\"sex\"]:nth-of-type(2)'' \<and>
   querySelector scenario_page ''input[name=\"sex\"]:nth-of-type(1)'' = Inr None \<and>
   querySelector scenario_page ''input[name=\"sex\"]:nth-of-type(2)'' = Inr (Some 3)"
  by code_simp

section \<open>Extraction\<close>






section \<open>The listener\<close>

text \<open>
  C9. Whenever extraction or the batch raises an exception, the listener answers with
  the error response that carries the message of the exception, in place of a field list
  or of counts. The listener itself always returns: no exception leaves it.
\<close>

theorem exceptions_become_error_responses:
  "(get_prop msg ''type'' = JStr ''EXTRACT_FORM_FIELDS'' \<and> extractFields doc = Inl e \<longrightarrow>
      fst (onMessage resolve json_parse doc msg) = Some (ErrorResponse (error_string e))) \<and>
   (get_prop msg ''type'' = JStr ''APPLY_MAPPINGS'' \<and>
    iterate_mappings (get_prop msg ''mappings'') = Inl e \<longrightarrow>
      fst (onMessage resolve json_parse doc msg) = Some (ErrorResponse (error_string e))) \<and>
   (get_prop msg ''type'' = JStr ''APPLY_MAPPINGS'' \<and>
    iterate_mappings (get_prop msg ''mappings'') = Inr ms \<and>
    snd (applyMappings resolve json_parse doc ms) = Some e \<longrightarrow>
      fst (onMessage resolve json_parse doc msg) = Some (ErrorResponse (error_string e)))"
  by (auto simp: onMessage_def split: prod.splits option.splits)

theorem exceptions_become_error_responses_witness:
  "fst (onMessage querySelector parse_string_array no_body_page
          (JObj [(''type'', JStr ''EXTRACT_FORM_FIELDS'')])) =
     Some (ErrorResponse ''Cannot read properties of null (reading tagName)'') \<and>
   fst (onMessage querySelector parse_string_array scenario_page
          (JObj [(''type'', JStr ''APPLY_MAPPINGS''), (''mappings'', JNum 7)])) =
     Some (ErrorResponse ''(msg.mappings || []) is not iterable'') \<and>
   fst (onMessage querySelector parse_string_array scenario_page
          (JObj [(''type'', JStr ''APPLY_MAPPINGS''),
                 (''mappings'', JArr [make_mapping ''#name'' ''text'' ''Alice'',
                                      JObj [(''selector'', JStr ''#country''), (''kind'', JNum 5)]])])) =
     Some (ErrorResponse ''(m?.kind || \"\").toLowerCase is not a function'')"
proof -
  let ?req = "JObj [(''type'', JStr ''EXTRACT_FORM_FIELDS'')]"
  let ?bad = "JObj [(''type'', JStr ''APPLY_MAPPINGS''), (''mappings'', JNum 7)]"
  let ?ms = "[make_mapping ''#name'' ''text'' ''Alice'',
              JObj [(''selector'', JStr ''#country''), (''kind'', JNum 5)]]"
  let ?apply = "JObj [(''type'', JStr ''APPLY_MAPPINGS''), (''mappings'', JArr ?ms)]"
  let ?e1 = "TypeError ''Cannot read properties of null (reading tagName)''"
  let ?e2 = "TypeError ''(msg.mappings || []) is not iterable''"
  let ?e3 = "TypeError ''(m?.kind || \"\").toLowerCase is not a function''"
  have t1: "get_prop ?req ''type'' = JStr ''EXTRACT_FORM_FIELDS''" by code_simp
  have x1: "extractFields no_body_page = Inl ?e1" by code_simp
  have t2: "get_prop ?bad ''type'' = JStr ''APPLY_MAPPINGS''" by code_simp
  have x2: "iterate_mappings (get_prop ?bad ''mappings'') = Inl ?e2" by code_simp
  have t3: "get_prop ?apply ''type'' = JStr ''APPLY_MAPPINGS''" by code_simp
  have i3: "iterate_mappings (get_prop ?apply ''mappings'') = Inr ?ms" by code_simp
  have x3: "snd (applyMappings querySelector parse_string_array scenario_page ?ms) = Some ?e3"
    by code_simp
  from exceptions_become_error_responses
         [where msg = ?req and doc = no_body_page and e = ?e1
            and resolve = querySelector and json_parse = parse_string_array] t1 x1
  have 1: "fst (onMessage querySelector parse_string_array no_body_page ?req) =
             Some (ErrorResponse (error_string ?e1))" by blast
  from exceptions_become_error_responses
         [where msg = ?bad and doc = scenario_page and e = ?e2
            and resolve = querySelector and json_parse = parse_string_array] t2 x2
  have 2: "fst (onMessage querySelector parse_string_array scenario_page ?bad) =
             Some (ErrorResponse (error_string ?e2))" by blast
  from exceptions_become_error_responses
         [where msg = ?apply and doc = scenario_page and e = ?e3 and ms = ?ms
            and resolve = querySelector and json_parse = parse_string_array] t3 i3 x3
  have 3: "fst (onMessage querySelector parse_string_array scenario_page ?apply) =
             Some (ErrorResponse (error_string ?e3))" by blast
  from 1 2 3 show ?thesis by simp
qed

section \<open>The end-to-end scenario\<close>

text \<open>
  Extraction on the page of the scenario gives the selectors \<open>#name\<close>, the two radio
  selectors and \<open>#country\<close>; the three mappings are all applied: the text input holds
  \<open>Alice\<close>, the second radio button is checked and the select holds \<open>US\<close>.
\<close>

lemma scenario_extraction:
  "map f_selector (case extractFields scenario_page of Inl e \<Rightarrow> [] | Inr fs \<Rightarrow> fs) =
     [''#name'', ''input[name=\"sex\"]:nth-of-type(1)'', ''input[name=\"sex\"]:nth-of-type(2)'',
      ''#country'']"
  by code_simp

lemma scenario_apply:
  "fst (onMessage querySelector parse_string_array scenario_page
          (JObj [(''type'', JStr ''APPLY_MAPPINGS''), (''mappings'', JArr scenario_mappings)])) =
     Some (CountsResponse 3 0) \<and>
   map (\<lambda>e. (elem_value e, checked e))
     (fst (snd (onMessage querySelector parse_string_array scenario_page
          (JObj [(''type'', JStr ''APPLY_MAPPINGS''), (''mappings'', JArr scenario_mappings)])))) =
     [([], False), ([], False), (''Alice'', False), (''M'', False), (''F'', True),
      (''US'', False), (''US'', False)]"
  by code_simp

end
